theory Spec2Isabelle
  imports Complex_Main "HOL-Library.Log_Nat"
begin

section \<open>Webhook registry and event dispatcher of the gobin server\<close>

text \<open>
  A shallow embedding of the server's webhook code (package \<open>server\<close>, the file that
  declares \<open>ExecuteWebhooks\<close>, \<open>executeWebhook\<close>, the four webhook handlers and
  \<open>GetWebhookSecret\<close>).  Go strings are byte strings (\<open>string\<close>), Go's \<open>int\<close>,
  \<open>int64\<close> and \<open>time.Duration\<close> (nanoseconds) are \<open>int\<close>; the one value of the code
  that can leave the range of \<open>int64\<close>, the backoff product, is a \<open>float64\<close> and is
  modelled as such.
  Everything the code does besides returning a value (log lines, span updates, sleeps,
  HTTP calls, persistence calls, wait-group operations) is recorded in a trace of effects.
\<close>

subsection \<open>Errors and replies\<close>

text \<open>
  The package's error values, \<open>sql.ErrNoRows\<close>, and any other error (a JSON decoding
  error, a persistence failure) with its message.
\<close>

datatype error =
    ErrWebhookNotFound
  | ErrMissingWebhookSecret
  | ErrMissingWebhookURL
  | ErrMissingWebhookEvents
  | ErrMissingURLOrSecretOrEvents
  | ErrPermissionDenied string
  | ErrNoRows
  | ErrOther string

text \<open>
  What a handler hands to \<open>s.error\<close>: an error wrapped by \<open>httperr.BadRequest\<close>,
  \<open>httperr.Forbidden\<close> or \<open>httperr.NotFound\<close>, or an error passed on as it is.
\<close>

datatype http_error =
    BadRequest error
  | Forbidden error
  | NotFound error
  | Unwrapped error

record WebhookCreateRequest =
  create_URL :: string
  create_Secret :: string
  create_Events :: "string list"

record WebhookUpdateRequest =
  update_URL :: string
  update_Secret :: string
  update_Events :: "string list"

record WebhookResponse =
  resp_ID :: string
  resp_DocumentKey :: string
  resp_URL :: string
  resp_Secret :: string
  resp_Events :: "string list"

text \<open>The reply of a handler: \<open>s.error(w, r, err)\<close> or \<open>s.ok(w, r, v)\<close> (\<open>v\<close> may be nil).\<close>

datatype reply =
    s_error http_error
  | s_ok "WebhookResponse option"

subsection \<open>Persistence\<close>

text \<open>
  \<open>database.Webhook\<close>, with the fields the code reads.  \<open>wh_Events\<close> is the
  comma-separated list of event names.
\<close>

record Webhook =
  wh_ID :: string
  wh_DocumentID :: string
  wh_URL :: string
  wh_Secret :: string
  wh_Events :: string

text \<open>The calls the code makes on \<open>s.db\<close>, with their arguments (the context apart).\<close>

datatype db_call =
    CreateWebhook string string string "string list"
  | GetWebhook string string string
  | UpdateWebhook string string string string string "string list"
  | DeleteWebhook string string string
  | GetWebhooksByDocumentID string
  | GetAndDeleteWebhooksByDocumentID string

text \<open>
  The persistence layer is not part of these sources: it is a parameter, the record of
  its operations over a store of type \<open>'db\<close>.  Each operation takes the store and returns
  its result with the store it leaves.
\<close>

record 'db Database =
  db_CreateWebhook ::
    "'db \<Rightarrow> string \<Rightarrow> string \<Rightarrow> string \<Rightarrow> string list \<Rightarrow> (error + Webhook) \<times> 'db"
  db_GetWebhook ::
    "'db \<Rightarrow> string \<Rightarrow> string \<Rightarrow> string \<Rightarrow> (error + Webhook) \<times> 'db"
  db_UpdateWebhook ::
    "'db \<Rightarrow> string \<Rightarrow> string \<Rightarrow> string \<Rightarrow> string \<Rightarrow> string \<Rightarrow> string list
      \<Rightarrow> (error + Webhook) \<times> 'db"
  db_DeleteWebhook ::
    "'db \<Rightarrow> string \<Rightarrow> string \<Rightarrow> string \<Rightarrow> error option \<times> 'db"
  db_GetWebhooksByDocumentID ::
    "'db \<Rightarrow> string \<Rightarrow> (error + Webhook list) \<times> 'db"
  db_GetAndDeleteWebhooksByDocumentID ::
    "'db \<Rightarrow> string \<Rightarrow> (error + Webhook list) \<times> 'db"

subsection \<open>Floating point\<close>

text \<open>
  Go's \<open>float64\<close> (IEEE 754 binary64): a finite value, an infinity or NaN.  A finite
  value is the rational number it stands for; the zero has no sign here, as the sign of a
  zero changes nothing that the code computes (its products end in a conversion to an
  integer).
\<close>

datatype float64 = Finite rat | PlusInf | MinusInf | NaN

text \<open>\<open>2 ^ e\<close> for an integer \<open>e\<close>, and \<open>\<lfloor>log\<^sub>2 a\<rfloor>\<close> for a positive rational \<open>a\<close>.\<close>

definition pow2 :: "int \<Rightarrow> rat" where
  "pow2 e = (if 0 \<le> e then 2 ^ nat e else 1 / 2 ^ nat (- e))"

definition ilog2 :: "rat \<Rightarrow> int" where
  "ilog2 a = (if 1 \<le> a then bitlen \<lfloor>a\<rfloor> - 1 else - bitlen (\<lceil>1 / a\<rceil> - 1))"

text \<open>The integer nearest to \<open>x\<close>, the even one of the two when \<open>x\<close> is half way.\<close>

definition round_half_even :: "rat \<Rightarrow> int" where
  "round_half_even x =
     (if x - of_int \<lfloor>x\<rfloor> < 1 / 2 then \<lfloor>x\<rfloor>
      else if 1 / 2 < x - of_int \<lfloor>x\<rfloor> then \<lfloor>x\<rfloor> + 1
      else if even \<lfloor>x\<rfloor> then \<lfloor>x\<rfloor> else \<lfloor>x\<rfloor> + 1)"

text \<open>
  The rounding of every \<open>float64\<close> operation: to the nearest value of the format, ties
  to even.  The values of the format near \<open>x\<close> are the multiples of \<open>2 ^ e\<close> with
  \<open>e = \<lfloor>log\<^sub>2 \<bar>x\<bar>\<rfloor> - 52\<close> (53 significant bits), and with \<open>e = - 1074\<close> for the
  smallest ones; a result of \<open>2 ^ 1024\<close> or more is an infinity.
\<close>

definition round64 :: "rat \<Rightarrow> float64" where
  "round64 x =
     (if x = 0 then Finite 0
      else
        (let e = max (ilog2 \<bar>x\<bar> - 52) (- 1074);
             y = of_int (round_half_even (\<bar>x\<bar> / pow2 e)) * pow2 e
         in if pow2 1024 \<le> y then (if x < 0 then MinusInf else PlusInf)
            else Finite (if x < 0 then - y else y)))"

text \<open>
  A value \<open>Finite q\<close> whose \<open>q\<close> is not a number of the format stands for the number of
  the format nearest to it, as a decimal literal does: \<open>Finite (7 / 10)\<close> is the
  \<open>float64\<close> written \<open>0.7\<close>.
\<close>

fun canon :: "float64 \<Rightarrow> float64" where
  "canon (Finite q) = round64 q"
| "canon x = x"

text \<open>The product \<open>x * y\<close> of two \<open>float64\<close>: the exact product, rounded.\<close>

fun mul_canon :: "float64 \<Rightarrow> float64 \<Rightarrow> float64" where
  "mul_canon NaN y = NaN"
| "mul_canon x NaN = NaN"
| "mul_canon (Finite p) (Finite q) = round64 (p * q)"
| "mul_canon (Finite p) PlusInf = (if p = 0 then NaN else if p < 0 then MinusInf else PlusInf)"
| "mul_canon (Finite p) MinusInf = (if p = 0 then NaN else if p < 0 then PlusInf else MinusInf)"
| "mul_canon PlusInf (Finite q) = (if q = 0 then NaN else if q < 0 then MinusInf else PlusInf)"
| "mul_canon MinusInf (Finite q) = (if q = 0 then NaN else if q < 0 then PlusInf else MinusInf)"
| "mul_canon PlusInf PlusInf = PlusInf"
| "mul_canon PlusInf MinusInf = MinusInf"
| "mul_canon MinusInf PlusInf = MinusInf"
| "mul_canon MinusInf MinusInf = PlusInf"

definition fmul :: "float64 \<Rightarrow> float64 \<Rightarrow> float64" where
  "fmul x y = mul_canon (canon x) (canon y)"

text \<open>The conversion \<open>float64(n)\<close> of an integer: the nearest value of the format.\<close>

definition float64_of_int :: "int \<Rightarrow> float64" where
  "float64_of_int n = round64 (of_int n)"

text \<open>The whole part of a rational, towards zero.\<close>

definition trunc :: "rat \<Rightarrow> int" where
  "trunc x = (if 0 \<le> x then \<lfloor>x\<rfloor> else \<lceil>x\<rceil>)"

subsection \<open>Configuration and server\<close>

text \<open>
  \<open>s.cfg.Webhook\<close>, with the fields the code reads.  Durations are nanoseconds, and
  \<open>int64\<close> in the code.  \<open>BackoffFactor\<close> is a \<open>float64\<close>.
\<close>

record WebhookConfig =
  Enabled :: bool
  Timeout :: int
  MaxTries :: int
  Backoff :: int
  BackoffFactor :: float64
  MaxBackoff :: int

text \<open>The fields of the server that the code reads, the HTTP client apart (see below).\<close>

record 'db Server =
  cfg_Webhook :: WebhookConfig
  version :: string
  db :: "'db Database"

subsection \<open>Strings\<close>

text \<open>
  \<open>strings.Split(s, ",")\<close> for a one-byte separator: the fields between the separators,
  one more than there are separators; the empty string has the one field \<open>""\<close>.
\<close>

fun Split :: "string \<Rightarrow> char \<Rightarrow> string list" where
  "Split [] sep = [[]]"
| "Split (c # cs) sep =
     (if c = sep then [] # Split cs sep
      else (case Split cs sep of
              [] \<Rightarrow> [[c]]
            | w # ws \<Rightarrow> (c # w) # ws))"

text \<open>\<open>slices.Contains\<close>.\<close>

definition Contains :: "'a list \<Rightarrow> 'a \<Rightarrow> bool" where
  "Contains xs x = (x \<in> set xs)"

text \<open>
  \<open>strings.ToUpper\<close> on bytes: the letters \<open>a\<close> to \<open>z\<close> become \<open>A\<close> to \<open>Z\<close>, every
  other byte stays.  This is Go's result on ASCII strings.  The code compares the result
  on a six-byte slice with the six ASCII letters \<open>SECRET\<close>; Go maps every rune to one
  rune, so a slice with a byte outside ASCII gives fewer than six runes or a rune outside
  ASCII, and the comparison fails there as it does in this model.
\<close>

definition upper_byte :: "char \<Rightarrow> char" where
  "upper_byte c =
     (if 97 \<le> (of_char c :: nat) \<and> (of_char c :: nat) \<le> 122
      then char_of ((of_char c :: nat) - 32) else c)"

definition ToUpper :: "string \<Rightarrow> string" where
  "ToUpper s = map upper_byte s"

subsection \<open>Permissions\<close>

text \<open>
  Modelled from the spec: the permission flag set of package \<open>flags\<close> and the permission
  constants, which are not part of these sources.  A permission is a named bit, a flag set
  is the set of the bits that are on, \<open>Has\<close> tests a bit and \<open>Misses\<close> is its negation.
\<close>

datatype Permission = PermissionWrite | PermissionDelete | PermissionShare | PermissionWebhook

type_synonym Permissions = "Permission set"

definition Has :: "Permissions \<Rightarrow> Permission \<Rightarrow> bool" where
  "Has f perm = (perm \<in> f)"

definition Misses :: "Permissions \<Rightarrow> Permission \<Rightarrow> bool" where
  "Misses f perm = (\<not> Has f perm)"

subsection \<open>Requests and the registry handlers\<close>

text \<open>
  An inbound request, as far as the handlers read it: the two URL parameters, the
  \<open>Authorization\<close> header (\<open>""\<close> when absent, as \<open>Header.Get\<close> returns), the permissions of
  the claims (\<open>GetClaims(r).Permissions\<close>) and the outcome of decoding the JSON body into
  the handler's request struct (\<open>Inl\<close> the decoder's error).
\<close>

record 'b Request =
  documentID :: string
  webhookID :: string
  Authorization :: string
  claims_Permissions :: Permissions
  Body :: "string + 'b"

definition GetWebhookSecret :: "'b Request \<Rightarrow> string" where
  "GetWebhookSecret r =
     (let secretStr = Authorization r in
      if length secretStr > 7 \<and> ToUpper (take 6 secretStr) = ''SECRET''
      then drop 7 secretStr
      else [])"

definition response_of :: "Webhook \<Rightarrow> WebhookResponse" where
  "response_of webhook =
     \<lparr> resp_ID = wh_ID webhook,
       resp_DocumentKey = wh_DocumentID webhook,
       resp_URL = wh_URL webhook,
       resp_Secret = wh_Secret webhook,
       resp_Events = Split (wh_Events webhook) CHR '','' \<rparr>"

text \<open>
  A handler returns its reply, the persistence calls it made, and the store it leaves.
\<close>

definition PostDocumentWebhook ::
  "'db Server \<Rightarrow> 'db \<Rightarrow> WebhookCreateRequest Request \<Rightarrow> reply \<times> db_call list \<times> 'db" where
  "PostDocumentWebhook s st r =
     (case Body r of
        Inl err \<Rightarrow> (s_error (BadRequest (ErrOther err)), [], st)
      | Inr webhookCreate \<Rightarrow>
          if create_URL webhookCreate = [] then
            (s_error (BadRequest ErrMissingWebhookURL), [], st)
          else if create_Secret webhookCreate = [] then
            (s_error (BadRequest ErrMissingWebhookSecret), [], st)
          else if length (create_Events webhookCreate) = 0 then
            (s_error (BadRequest ErrMissingWebhookEvents), [], st)
          else if Misses (claims_Permissions r) PermissionWebhook then
            (s_error (Forbidden (ErrPermissionDenied ''webhook'')), [], st)
          else
            (let call = CreateWebhook (documentID r) (create_URL webhookCreate)
                          (create_Secret webhookCreate) (create_Events webhookCreate) in
             case db_CreateWebhook (db s) st (documentID r) (create_URL webhookCreate)
                    (create_Secret webhookCreate) (create_Events webhookCreate) of
               (Inl err, st') \<Rightarrow> (s_error (Unwrapped err), [call], st')
             | (Inr webhook, st') \<Rightarrow> (s_ok (Some (response_of webhook)), [call], st')))"

definition GetDocumentWebhook ::
  "'db Server \<Rightarrow> 'db \<Rightarrow> 'b Request \<Rightarrow> reply \<times> db_call list \<times> 'db" where
  "GetDocumentWebhook s st r =
     (let secret = GetWebhookSecret r in
      if secret = [] then (s_error (BadRequest ErrMissingWebhookSecret), [], st)
      else
        (let call = GetWebhook (documentID r) (webhookID r) secret in
         case db_GetWebhook (db s) st (documentID r) (webhookID r) secret of
           (Inl err, st') \<Rightarrow>
             if err = ErrNoRows then (s_error (NotFound ErrWebhookNotFound), [call], st')
             else (s_error (Unwrapped err), [call], st')
         | (Inr webhook, st') \<Rightarrow> (s_ok (Some (response_of webhook)), [call], st')))"

definition PatchDocumentWebhook ::
  "'db Server \<Rightarrow> 'db \<Rightarrow> WebhookUpdateRequest Request \<Rightarrow> reply \<times> db_call list \<times> 'db" where
  "PatchDocumentWebhook s st r =
     (let secret = GetWebhookSecret r in
      if secret = [] then (s_error (BadRequest ErrMissingWebhookSecret), [], st)
      else
        (case Body r of
           Inl err \<Rightarrow> (s_error (BadRequest (ErrOther err)), [], st)
         | Inr webhookUpdate \<Rightarrow>
             if update_URL webhookUpdate = [] \<and> update_Secret webhookUpdate = []
                \<and> length (update_Events webhookUpdate) = 0 then
               (s_error (BadRequest ErrMissingURLOrSecretOrEvents), [], st)
             else
               (let call = UpdateWebhook (documentID r) (webhookID r) secret
                             (update_URL webhookUpdate) (update_Secret webhookUpdate)
                             (update_Events webhookUpdate) in
                case db_UpdateWebhook (db s) st (documentID r) (webhookID r) secret
                       (update_URL webhookUpdate) (update_Secret webhookUpdate)
                       (update_Events webhookUpdate) of
                  (Inl err, st') \<Rightarrow>
                    if err = ErrNoRows then (s_error (NotFound ErrWebhookNotFound), [call], st')
                    else (s_error (Unwrapped err), [call], st')
                | (Inr webhook, st') \<Rightarrow> (s_ok (Some (response_of webhook)), [call], st'))))"

definition DeleteDocumentWebhook ::
  "'db Server \<Rightarrow> 'db \<Rightarrow> 'b Request \<Rightarrow> reply \<times> db_call list \<times> 'db" where
  "DeleteDocumentWebhook s st r =
     (let secret = GetWebhookSecret r in
      if secret = [] then (s_error (BadRequest ErrMissingWebhookSecret), [], st)
      else
        (let call = DeleteWebhook (documentID r) (webhookID r) secret in
         case db_DeleteWebhook (db s) st (documentID r) (webhookID r) secret of
           (Some err, st') \<Rightarrow>
             if err = ErrNoRows then (s_error (NotFound ErrWebhookNotFound), [call], st')
             else (s_error (Unwrapped err), [call], st')
         | (None, st') \<Rightarrow> (s_ok None, [call], st')))"

subsection \<open>Contexts\<close>

text \<open>
  A \<open>context.Context\<close> by the way it was built.  \<open>Root d\<close> is the context of the
  triggering request, with the deadline \<open>d\<close> it may have; \<open>WithoutCancel\<close> and
  \<open>WithDeadline\<close> are Go's; \<open>WithSpan\<close> is the context \<open>tracer.Start\<close> returns, the
  parent with a span attached.  Times are nanoseconds.
\<close>

datatype Context =
    Root "int option"
  | WithoutCancel Context
  | WithDeadline Context int
  | WithSpan string Context

text \<open>\<open>context.WithTimeout(parent, d)\<close> is \<open>WithDeadline(parent, time.Now().Add(d))\<close>.\<close>

definition WithTimeout :: "int \<Rightarrow> Context \<Rightarrow> int \<Rightarrow> Context" where
  "WithTimeout now parent timeout = WithDeadline parent (now + timeout)"

text \<open>
  \<open>ctx.Deadline()\<close>: a context without cancel has none, whatever its parent has; a
  deadline later than the parent's keeps the parent's.
\<close>

fun Deadline :: "Context \<Rightarrow> int option" where
  "Deadline (Root d) = d"
| "Deadline (WithoutCancel parent) = None"
| "Deadline (WithDeadline parent t) =
     (case Deadline parent of None \<Rightarrow> Some t | Some t' \<Rightarrow> Some (min t t'))"
| "Deadline (WithSpan name parent) = Deadline parent"

text \<open>Whether cancelling the triggering request's context cancels this one.\<close>

fun cancelled_with_root :: "Context \<Rightarrow> bool" where
  "cancelled_with_root (Root d) = True"
| "cancelled_with_root (WithoutCancel parent) = False"
| "cancelled_with_root (WithDeadline parent t) = cancelled_with_root parent"
| "cancelled_with_root (WithSpan name parent) = cancelled_with_root parent"

subsection \<open>Events, outbound requests, effects\<close>

record WebhookDocumentFile =
  file_Name :: string
  file_Content :: string
  file_Language :: string
  file_ExpiresAt :: "int option"

record WebhookDocument =
  doc_Key :: string
  doc_Version :: int
  doc_Files :: "WebhookDocumentFile list"

record WebhookEventRequest =
  ev_WebhookID :: string
  ev_Event :: string
  ev_CreatedAt :: int
  ev_Document :: WebhookDocument

definition WebhookEventUpdate :: string where
  "WebhookEventUpdate = ''update''"

definition WebhookEventDelete :: string where
  "WebhookEventDelete = ''delete''"

text \<open>The header names of package \<open>ezhttp\<close> that the code uses.\<close>

datatype header_name = HeaderContentType | HeaderUserAgent | HeaderAuthorization

text \<open>The \<open>http.Request\<close> that \<open>executeWebhook\<close> builds once and sends at every attempt.\<close>

record OutRequest =
  rq_ctx :: Context
  rq_Method :: string
  rq_URL :: string
  rq_Body :: string
  rq_Header :: "(header_name \<times> string) list"

text \<open>The outcome of \<open>s.client.Do\<close>: an error, or a response with its status code.\<close>

datatype client_result = TransportError string | Response int

datatype level = LevelDebug | LevelError

datatype effect =
    Log level string
  | SpanSetStatusError string
  | SpanRecordError string
  | SpanEnd
  | Sleep int
  | ClientDo OutRequest
  | DbCall Context db_call
  | WgAdd int
  | WgDone

subsection \<open>The environment\<close>

text \<open>
  What the code gets from outside: the outcome of \<open>json.Encode\<close> on the event (\<open>Inl\<close> an
  error), the error of \<open>http.NewRequestWithContext\<close> for a URL if it has one, the answer of
  \<open>s.client.Do\<close> to the \<open>i\<close>-th sending of a request (from 0; the code sends the same
  request value at every attempt), the clock, and the constant \<open>ezhttp.ContentTypeJSON\<close>,
  whose value is not in these sources.  How \<open>s.client\<close> is configured is not in these
  sources either: whatever makes a sending fail inside the client, a timeout of its own
  included, is a \<open>TransportError\<close> here.  The last field is the integer that the
  platform gives when a \<open>float64\<close> outside the range of \<open>int64\<close> (or an infinity, or
  NaN) is converted to \<open>int64\<close>: Go leaves that result to the implementation.
\<close>

record Env =
  json_Encode :: "WebhookEventRequest \<Rightarrow> string + string"
  NewRequest_error :: "string \<Rightarrow> string option"
  client_Do :: "OutRequest \<Rightarrow> nat \<Rightarrow> client_result"
  time_Now :: int
  ContentTypeJSON :: string
  Duration_out_of_range :: "float64 \<Rightarrow> int"

subsection \<open>Delivery to one subscriber\<close>

text \<open>
  The conversion \<open>time.Duration(x)\<close> of a \<open>float64\<close> to \<open>int64\<close>: the fraction is dropped
  (towards zero) when the result is in the range of \<open>int64\<close>, and the result is the
  platform's otherwise.
\<close>

definition Duration :: "Env \<Rightarrow> float64 \<Rightarrow> int" where
  "Duration env x =
     (case canon x of
        Finite q \<Rightarrow>
          if - (2 ^ 63) \<le> trunc q \<and> trunc q < 2 ^ 63 then trunc q
          else Duration_out_of_range env x
      | _ \<Rightarrow> Duration_out_of_range env x)"

text \<open>
  The value of \<open>backoff\<close> as computed at the head of iteration \<open>i\<close>:
  \<open>time.Duration(BackoffFactor * float64(Backoff) * float64(i))\<close>, the products taken from
  left to right.
\<close>

definition backoff_of :: "Env \<Rightarrow> WebhookConfig \<Rightarrow> nat \<Rightarrow> int" where
  "backoff_of env cfg i =
     Duration env
       (fmul (fmul (BackoffFactor cfg) (float64_of_int (Backoff cfg))) (float64_of_int (int i)))"

text \<open>
  The loop \<open>for i := 0; i < MaxTries; i++\<close> of \<open>executeWebhook\<close> from iteration \<open>i\<close> on,
  with what follows the loop.  \<open>time.Nanosecond\<close> is 1.
\<close>

function executeWebhook_loop :: "WebhookConfig \<Rightarrow> Env \<Rightarrow> OutRequest \<Rightarrow> nat \<Rightarrow> effect list" where
  "executeWebhook_loop cfg env rq i =
     (if int i < MaxTries cfg then
        (if backoff_of env cfg i > 1 then
           [Log LevelDebug ''sleeping backoff'',
            Sleep (if backoff_of env cfg i > MaxBackoff cfg then MaxBackoff cfg
                   else backoff_of env cfg i)]
         else [])
        @ ClientDo rq #
        (case client_Do env rq i of
           TransportError err \<Rightarrow>
             Log LevelDebug ''failed to execute request'' # executeWebhook_loop cfg env rq (Suc i)
         | Response StatusCode \<Rightarrow>
             if StatusCode < 200 \<or> StatusCode \<ge> 300 then
               Log LevelDebug ''invalid status code'' # executeWebhook_loop cfg env rq (Suc i)
             else [Log LevelDebug ''successfully executed webhook''])
      else
        [SpanSetStatusError ''failed to execute webhook'',
         SpanRecordError ''max tries reached'',
         Log LevelError ''failed to execute webhook''])"
  by pat_completeness auto
termination
  by (relation "measure (\<lambda>(cfg, env, rq, i). nat (MaxTries cfg - int i))") auto

declare executeWebhook_loop.simps [simp del]

text \<open>
  The request of \<open>executeWebhook\<close> once it is built: \<open>http.NewRequestWithContext\<close> with
  the method \<open>POST\<close>, the URL and the encoded event, then the three \<open>Header.Add\<close>.
\<close>

definition outbound_request ::
  "'db Server \<Rightarrow> Env \<Rightarrow> Context \<Rightarrow> string \<Rightarrow> string \<Rightarrow> string \<Rightarrow> OutRequest" where
  "outbound_request s env ctx url secret buff =
     \<lparr> rq_ctx = ctx, rq_Method = ''POST'', rq_URL = url, rq_Body = buff,
       rq_Header =
         [(HeaderContentType, ContentTypeJSON env),
          (HeaderUserAgent, ''gobin/'' @ version s),
          (HeaderAuthorization, ''Secret '' @ secret)] \<rparr>"

definition executeWebhook ::
  "'db Server \<Rightarrow> Env \<Rightarrow> Context \<Rightarrow> string \<Rightarrow> string \<Rightarrow> WebhookEventRequest \<Rightarrow> effect list" where
  "executeWebhook s env ctx0 url secret request =
     (let ctx = WithSpan ''executeWebhook'' ctx0 in
      Log LevelDebug ''emitting webhook'' #
      (case json_Encode env request of
         Inl err \<Rightarrow>
           [SpanSetStatusError ''failed to encode document'', SpanRecordError err,
            Log LevelError ''failed to encode document'', SpanEnd]
       | Inr buff \<Rightarrow>
           (case NewRequest_error env url of
              Some err \<Rightarrow>
                [SpanSetStatusError ''failed to create request'', SpanRecordError err,
                 Log LevelError ''failed to create request'', SpanEnd]
            | None \<Rightarrow>
                executeWebhook_loop (cfg_Webhook s) env
                  (outbound_request s env ctx url secret buff) 0
                @ [SpanEnd])))"

subsection \<open>The dispatcher\<close>

text \<open>
  One run of \<open>executeWebhooks\<close>: its own effects up to the start of the deliveries, the
  delivery goroutines it started (one per entry, each with the webhook it serves and its
  own trace; they run concurrently and share nothing but the join), and its effects after
  \<open>wg.Wait()\<close>, the deferred calls included.
\<close>

record Dispatch =
  before_tasks :: "effect list"
  tasks :: "(Webhook \<times> effect list) list"
  after_tasks :: "effect list"

text \<open>The loop over the resolved webhooks: a goroutine for each one subscribed to the event.\<close>

fun deliveries ::
  "'db Server \<Rightarrow> Env \<Rightarrow> Context \<Rightarrow> string \<Rightarrow> WebhookDocument \<Rightarrow> int \<Rightarrow> Webhook list
    \<Rightarrow> (Webhook \<times> effect list) list" where
  "deliveries s env ctx event document now [] = []"
| "deliveries s env ctx event document now (webhook # webhooks) =
     (if \<not> Contains (Split (wh_Events webhook) CHR '','') event then
        deliveries s env ctx event document now webhooks
      else
        (webhook,
         executeWebhook s env ctx (wh_URL webhook) (wh_Secret webhook)
           \<lparr> ev_WebhookID = wh_ID webhook, ev_Event = event, ev_CreatedAt = now,
             ev_Document = document \<rparr>)
        # deliveries s env ctx event document now webhooks)"

definition executeWebhooks ::
  "'db Server \<Rightarrow> Env \<Rightarrow> 'db \<Rightarrow> Context \<Rightarrow> string \<Rightarrow> WebhookDocument \<Rightarrow> Dispatch \<times> 'db" where
  "executeWebhooks s env st ctx event document =
     (let dbCtx = WithTimeout (time_Now env) ctx (Timeout (cfg_Webhook s));
          call = (if event = WebhookEventDelete
                  then GetAndDeleteWebhooksByDocumentID (doc_Key document)
                  else GetWebhooksByDocumentID (doc_Key document));
          (result, st') = (if event = WebhookEventDelete
                  then db_GetAndDeleteWebhooksByDocumentID (db s) st (doc_Key document)
                  else db_GetWebhooksByDocumentID (db s) st (doc_Key document))
      in case result of
           Inl err \<Rightarrow>
             (\<lparr> before_tasks =
                  [DbCall dbCtx call, Log LevelError ''failed to get webhooks by document id''],
                tasks = [], after_tasks = [WgDone] \<rparr>, st')
         | Inr webhooks \<Rightarrow>
             if length webhooks = 0 then
               (\<lparr> before_tasks = [DbCall dbCtx call], tasks = [], after_tasks = [WgDone] \<rparr>, st')
             else
               (\<lparr> before_tasks = [DbCall dbCtx call],
                  tasks = deliveries s env ctx event document (time_Now env) webhooks,
                  after_tasks = [Log LevelDebug ''finished emitting webhooks'', WgDone] \<rparr>, st'))"

text \<open>
  \<open>ExecuteWebhooks\<close> returns to its caller at once: what it did itself, and the goroutine
  it started, if any, with the context, the event and the document it passes.
\<close>

record goroutine =
  go_ctx :: Context
  go_event :: string
  go_document :: WebhookDocument

definition ExecuteWebhooks ::
  "'db Server \<Rightarrow> Context \<Rightarrow> string \<Rightarrow> WebhookDocument \<Rightarrow> effect list \<times> goroutine option" where
  "ExecuteWebhooks s ctx event document =
     (if \<not> Enabled (cfg_Webhook s) then ([], None)
      else
        ([WgAdd 1],
         Some \<lparr> go_ctx = WithSpan ''executeWebhooks'' (WithoutCancel ctx),
                go_event = event, go_document = document \<rparr>))"

text \<open>The body of the goroutine: \<open>executeWebhooks\<close>, then the deferred \<open>span.End()\<close>.\<close>

definition run_goroutine :: "'db Server \<Rightarrow> Env \<Rightarrow> 'db \<Rightarrow> goroutine \<Rightarrow> Dispatch \<times> 'db" where
  "run_goroutine s env st g =
     (case executeWebhooks s env st (go_ctx g) (go_event g) (go_document g) of
        (d, st') \<Rightarrow> (d\<lparr> after_tasks := after_tasks d @ [SpanEnd] \<rparr>, st'))"

text \<open>
  A whole dispatch: the call of \<open>ExecuteWebhooks\<close> and the run of the goroutine it
  started, on the store as it stands when the goroutine runs.
\<close>

definition dispatch ::
  "'db Server \<Rightarrow> Env \<Rightarrow> 'db \<Rightarrow> Context \<Rightarrow> string \<Rightarrow> WebhookDocument
    \<Rightarrow> effect list \<times> Dispatch option \<times> 'db" where
  "dispatch s env st ctx event document =
     (case ExecuteWebhooks s ctx event document of
        (effects, None) \<Rightarrow> (effects, None, st)
      | (effects, Some g) \<Rightarrow>
          (case run_goroutine s env st g of (d, st') \<Rightarrow> (effects, Some d, st')))"

subsection \<open>Reading traces\<close>

text \<open>The requests sent, in order: one entry per call of \<open>s.client.Do\<close>.\<close>

fun sends :: "effect list \<Rightarrow> OutRequest list" where
  "sends [] = []"
| "sends (ClientDo rq # es) = rq # sends es"
| "sends (e # es) = sends es"

text \<open>The sleeps and the sendings of a trace, in order.\<close>

fun timing :: "effect \<Rightarrow> bool" where
  "timing (Sleep d) = True"
| "timing (ClientDo rq) = True"
| "timing e = False"

definition schedule :: "effect list \<Rightarrow> effect list" where
  "schedule es = filter timing es"

text \<open>The operations on the server's wait-group, in order.\<close>

fun wg_op :: "effect \<Rightarrow> bool" where
  "wg_op (WgAdd n) = True"
| "wg_op WgDone = True"
| "wg_op e = False"

definition wg_ops :: "effect list \<Rightarrow> effect list" where
  "wg_ops es = filter wg_op es"

text \<open>The persistence calls of a trace, in order.\<close>

fun db_calls :: "effect list \<Rightarrow> db_call list" where
  "db_calls [] = []"
| "db_calls (DbCall ctx call # es) = call # db_calls es"
| "db_calls (e # es) = db_calls es"

text \<open>The contexts of the persistence calls of a trace, in order.\<close>

fun db_contexts :: "effect list \<Rightarrow> Context list" where
  "db_contexts [] = []"
| "db_contexts (DbCall ctx call # es) = ctx # db_contexts es"
| "db_contexts (e # es) = db_contexts es"

text \<open>The error-level log lines of a trace.\<close>

fun error_logs :: "effect list \<Rightarrow> string list" where
  "error_logs [] = []"
| "error_logs (Log LevelError msg # es) = msg # error_logs es"
| "error_logs (e # es) = error_logs es"

text \<open>
  All effects of a run of \<open>executeWebhooks\<close>, the goroutines' traces one after the other
  (one of the orders in which they can happen).
\<close>

definition all_effects :: "Dispatch \<Rightarrow> effect list" where
  "all_effects d = before_tasks d @ concat (map snd (tasks d)) @ after_tasks d"

text \<open>
  Whether a webhook is subscribed to an event, by the test of the loop in
  \<open>executeWebhooks\<close>, and the event that a delivery to it sends.
\<close>

definition subscribed :: "string \<Rightarrow> Webhook \<Rightarrow> bool" where
  "subscribed event webhook = Contains (Split (wh_Events webhook) CHR '','') event"

definition event_request :: "Env \<Rightarrow> string \<Rightarrow> WebhookDocument \<Rightarrow> Webhook \<Rightarrow> WebhookEventRequest" where
  "event_request env event document webhook =
     \<lparr> ev_WebhookID = wh_ID webhook, ev_Event = event, ev_CreatedAt = time_Now env,
       ev_Document = document \<rparr>"

text \<open>
  The lookup of \<open>executeWebhooks\<close> for an event: the call it makes, and the outcome of
  that call on a store.
\<close>

definition lookup_call :: "string \<Rightarrow> WebhookDocument \<Rightarrow> db_call" where
  "lookup_call event document =
     (if event = ''delete'' then GetAndDeleteWebhooksByDocumentID (doc_Key document)
      else GetWebhooksByDocumentID (doc_Key document))"

definition lookup :: "'db Server \<Rightarrow> 'db \<Rightarrow> string \<Rightarrow> WebhookDocument \<Rightarrow> (error + Webhook list) \<times> 'db" where
  "lookup s st event document =
     (if event = ''delete''
      then db_GetAndDeleteWebhooksByDocumentID (db s) st (doc_Key document)
      else db_GetWebhooksByDocumentID (db s) st (doc_Key document))"

text \<open>The webhooks that a lookup resolved: none when it failed.\<close>

fun resolved :: "error + Webhook list \<Rightarrow> Webhook list" where
  "resolved (Inl err) = []"
| "resolved (Inr webhooks) = webhooks"

text \<open>The webhooks a run started a delivery goroutine for.\<close>

definition delivered_to :: "Dispatch \<Rightarrow> Webhook list" where
  "delivered_to d = map fst (tasks d)"

text \<open>An attempt succeeds when \<open>Do\<close> returns a response with a status from 200 to 299.\<close>

fun success :: "client_result \<Rightarrow> bool" where
  "success (TransportError err) = False"
| "success (Response StatusCode) = (200 \<le> StatusCode \<and> StatusCode < 300)"

text \<open>
  The number of attempts, among the first \<open>n\<close>, that fail before the first one that
  succeeds (\<open>n\<close> if none succeeds).
\<close>

definition failures_before_success :: "Env \<Rightarrow> OutRequest \<Rightarrow> nat \<Rightarrow> nat" where
  "failures_before_success env rq n =
     length (takeWhile (\<lambda>j. \<not> success (client_Do env rq j)) [0..<n])"

subsection \<open>The retry loop iteration by iteration\<close>

text \<open>What an iteration does before it sends: the sleep, if the backoff is over a nanosecond.\<close>

definition sleep_step :: "Env \<Rightarrow> WebhookConfig \<Rightarrow> nat \<Rightarrow> effect list" where
  "sleep_step env cfg i =
     (if backoff_of env cfg i > 1 then
        [Log LevelDebug ''sleeping backoff'',
         Sleep (if backoff_of env cfg i > MaxBackoff cfg then MaxBackoff cfg
                else backoff_of env cfg i)]
      else [])"

text \<open>The log line of an attempt that fails, by the kind of the failure.\<close>

fun failure_log :: "client_result \<Rightarrow> effect" where
  "failure_log (TransportError err) = Log LevelDebug ''failed to execute request''"
| "failure_log (Response StatusCode) = Log LevelDebug ''invalid status code''"

text \<open>Iteration \<open>i\<close> when its attempt fails, and when it succeeds.\<close>

definition failed_attempt :: "WebhookConfig \<Rightarrow> Env \<Rightarrow> OutRequest \<Rightarrow> nat \<Rightarrow> effect list" where
  "failed_attempt cfg env rq i =
     sleep_step env cfg i @ [ClientDo rq, failure_log (client_Do env rq i)]"

definition successful_attempt :: "WebhookConfig \<Rightarrow> Env \<Rightarrow> OutRequest \<Rightarrow> nat \<Rightarrow> effect list" where
  "successful_attempt cfg env rq i =
     sleep_step env cfg i @ [ClientDo rq, Log LevelDebug ''successfully executed webhook'']"

text \<open>What follows the loop when it runs out of tries.\<close>

definition max_tries_reached :: "effect list" where
  "max_tries_reached =
     [SpanSetStatusError ''failed to execute webhook'',
      SpanRecordError ''max tries reached'',
      Log LevelError ''failed to execute webhook'']"

subsection \<open>Comparing without case\<close>

text \<open>
  Equality of byte strings up to the case of the letters \<open>A\<close> to \<open>Z\<close>: the two strings
  are equal once every capital letter is replaced by its small letter.
\<close>

definition lower_byte :: "char \<Rightarrow> char" where
  "lower_byte c =
     (if 65 \<le> (of_char c :: nat) \<and> (of_char c :: nat) \<le> 90
      then char_of ((of_char c :: nat) + 32) else c)"

definition EqualFold :: "string \<Rightarrow> string \<Rightarrow> bool" where
  "EqualFold s t = (map lower_byte s = map lower_byte t)"

subsection \<open>The backoff as the specification words it\<close>

text \<open>
  The specification's delay before attempt \<open>i\<close>:
  \<open>min(MaxBackoff, BackoffFactor * BaseBackoff * i)\<close>, the product being the product of
  the three numbers, in whole nanoseconds.  It has no value when the factor is not a
  number.
\<close>

definition spec_delay :: "WebhookConfig \<Rightarrow> nat \<Rightarrow> int option" where
  "spec_delay cfg i =
     (case canon (BackoffFactor cfg) of
        Finite factor \<Rightarrow>
          Some (trunc (min (of_int (MaxBackoff cfg))
                           (factor * of_int (Backoff cfg) * of_nat i)))
      | _ \<Rightarrow> None)"

text \<open>
  What the specification prescribes before attempt \<open>i\<close>: nothing when the delay is zero
  or negligible (a nanosecond or less), and otherwise a sleep of the delay.
\<close>

definition spec_pause :: "WebhookConfig \<Rightarrow> nat \<Rightarrow> effect list" where
  "spec_pause cfg i =
     (case spec_delay cfg i of
        None \<Rightarrow> []
      | Some delay \<Rightarrow> if delay \<le> 1 then [] else [Sleep delay])"

text \<open>The sleeps and sendings of \<open>n\<close> attempts as the specification prescribes them.\<close>

definition spec_schedule :: "WebhookConfig \<Rightarrow> OutRequest \<Rightarrow> nat \<Rightarrow> effect list" where
  "spec_schedule cfg rq n = concat (map (\<lambda>i. spec_pause cfg i @ [ClientDo rq]) [0..<n])"

subsection \<open>The backoff as the code takes it\<close>

text \<open>
  The sleep before attempt \<open>i\<close>: none when the computed backoff is a nanosecond or less,
  and otherwise one of the computed backoff or of \<open>MaxBackoff\<close>, whichever is less.
\<close>

definition backoff_pause :: "Env \<Rightarrow> WebhookConfig \<Rightarrow> nat \<Rightarrow> effect list" where
  "backoff_pause env cfg i =
     (if 1 < backoff_of env cfg i then [Sleep (min (MaxBackoff cfg) (backoff_of env cfg i))]
      else [])"

subsection \<open>A store for the persistence layer\<close>

text \<open>
  Modelled from the spec: the persistence layer (package \<open>database\<close>), which is not part
  of these sources.  The store is the list of the webhook records.  A record is read,
  updated and deleted by its document, its id and its secret together, and no matching
  record is \<open>sql.ErrNoRows\<close>; the lookup by document returns the records of the document;
  get-and-delete returns them and removes them in one step.  An update replaces the
  fields that are given (not empty).  The id of a new record is generated from the store.
\<close>

definition matches :: "string \<Rightarrow> string \<Rightarrow> string \<Rightarrow> Webhook \<Rightarrow> bool" where
  "matches d w secret row = (wh_DocumentID row = d \<and> wh_ID row = w \<and> wh_Secret row = secret)"

fun Join :: "string list \<Rightarrow> string \<Rightarrow> string" where
  "Join [] sep = []"
| "Join [x] sep = x"
| "Join (x # y # xs) sep = x @ sep @ Join (y # xs) sep"

definition fresh_id :: "Webhook list \<Rightarrow> string" where
  "fresh_id rows = replicate (Suc (foldr (\<lambda>row n. max (length (wh_ID row)) n) rows 0)) CHR ''w''"

definition updated :: "Webhook \<Rightarrow> string \<Rightarrow> string \<Rightarrow> string list \<Rightarrow> Webhook" where
  "updated row url secret events =
     row\<lparr> wh_URL := (if url = [] then wh_URL row else url),
          wh_Secret := (if secret = [] then wh_Secret row else secret),
          wh_Events := (if events = [] then wh_Events row else Join events '','') \<rparr>"

definition store_db :: "(Webhook list) Database" where
  "store_db =
     \<lparr> db_CreateWebhook = (\<lambda>rows d url secret events.
         (let row = \<lparr> wh_ID = fresh_id rows, wh_DocumentID = d, wh_URL = url,
                      wh_Secret = secret, wh_Events = Join events '','' \<rparr>
          in (Inr row, rows @ [row]))),
       db_GetWebhook = (\<lambda>rows d w secret.
         (case filter (matches d w secret) rows of
            [] \<Rightarrow> (Inl ErrNoRows, rows)
          | row # _ \<Rightarrow> (Inr row, rows))),
       db_UpdateWebhook = (\<lambda>rows d w secret url new_secret events.
         (case filter (matches d w secret) rows of
            [] \<Rightarrow> (Inl ErrNoRows, rows)
          | row # _ \<Rightarrow>
              (Inr (updated row url new_secret events),
               map (\<lambda>x. if matches d w secret x then updated x url new_secret events else x)
                 rows))),
       db_DeleteWebhook = (\<lambda>rows d w secret.
         (case filter (matches d w secret) rows of
            [] \<Rightarrow> (Some ErrNoRows, rows)
          | row # _ \<Rightarrow> (None, filter (\<lambda>x. \<not> matches d w secret x) rows))),
       db_GetWebhooksByDocumentID = (\<lambda>rows d.
         (Inr (filter (\<lambda>row. wh_DocumentID row = d) rows), rows)),
       db_GetAndDeleteWebhooksByDocumentID = (\<lambda>rows d.
         (Inr (filter (\<lambda>row. wh_DocumentID row = d) rows),
          filter (\<lambda>row. wh_DocumentID row \<noteq> d) rows)) \<rparr>"

text \<open>A persistence layer that is out of order: every operation fails.\<close>

definition broken_db :: "unit Database" where
  "broken_db =
     \<lparr> db_CreateWebhook = (\<lambda>st d url secret events. (Inl (ErrOther ''connection refused''), st)),
       db_GetWebhook = (\<lambda>st d w secret. (Inl (ErrOther ''connection refused''), st)),
       db_UpdateWebhook =
         (\<lambda>st d w secret url new_secret events. (Inl (ErrOther ''connection refused''), st)),
       db_DeleteWebhook = (\<lambda>st d w secret. (Some (ErrOther ''connection refused''), st)),
       db_GetWebhooksByDocumentID = (\<lambda>st d. (Inl (ErrOther ''connection refused''), st)),
       db_GetAndDeleteWebhooksByDocumentID =
         (\<lambda>st d. (Inl (ErrOther ''connection refused''), st)) \<rparr>"

subsection \<open>Sample inputs\<close>

text \<open>
  The configuration of the specification's example: three tries, a base backoff of 100 ms,
  a factor of 2 and a cap of 300 ms (and a lookup timeout of 5 s).
\<close>

definition sample_cfg :: WebhookConfig where
  "sample_cfg =
     \<lparr> Enabled = True, Timeout = 5000000000, MaxTries = 3, Backoff = 100000000,
       BackoffFactor = Finite 2, MaxBackoff = 300000000 \<rparr>"

text \<open>
  Three more configurations: the cap at zero; a factor of 0.7 on a base of 10 ns; and a
  base of \<open>2 ^ 62\<close> ns with a factor of 4.
\<close>

definition zero_cap_cfg :: WebhookConfig where
  "zero_cap_cfg = sample_cfg\<lparr> MaxBackoff := 0 \<rparr>"

definition rounding_cfg :: WebhookConfig where
  "rounding_cfg = sample_cfg\<lparr> Backoff := 10, BackoffFactor := Finite (7 / 10) \<rparr>"

definition overflow_cfg :: WebhookConfig where
  "overflow_cfg = sample_cfg\<lparr> Backoff := 4611686018427387904, BackoffFactor := Finite 4 \<rparr>"

definition sample_server :: "(Webhook list) Server" where
  "sample_server = \<lparr> cfg_Webhook = sample_cfg, version = ''3'', db = store_db \<rparr>"

definition broken_server :: "unit Server" where
  "broken_server = \<lparr> cfg_Webhook = sample_cfg, version = ''3'', db = broken_db \<rparr>"

text \<open>
  A subscriber that never answers with success (a timeout, then status 500), and one
  that fails once and then answers 204.  The platform is amd64, where a conversion out of
  range gives the least \<open>int64\<close>.
\<close>

definition failing_env :: Env where
  "failing_env =
     \<lparr> json_Encode = (\<lambda>request. Inr ''{}''), NewRequest_error = (\<lambda>url. None),
       client_Do = (\<lambda>rq i. if i = 0 then TransportError ''timeout'' else Response 500),
       time_Now = 1000, ContentTypeJSON = ''application/json'',
       Duration_out_of_range = (\<lambda>x. - 9223372036854775808) \<rparr>"

definition recovering_env :: Env where
  "recovering_env =
     \<lparr> json_Encode = (\<lambda>request. Inr ''{}''), NewRequest_error = (\<lambda>url. None),
       client_Do = (\<lambda>rq i. if i = 0 then Response 500 else Response 204),
       time_Now = 1000, ContentTypeJSON = ''application/json'',
       Duration_out_of_range = (\<lambda>x. - 9223372036854775808) \<rparr>"

definition sample_document :: WebhookDocument where
  "sample_document = \<lparr> doc_Key = ''doc'', doc_Version = 1, doc_Files = [] \<rparr>"

definition update_hook :: Webhook where
  "update_hook =
     \<lparr> wh_ID = ''w1'', wh_DocumentID = ''doc'', wh_URL = ''http://a'', wh_Secret = ''token'',
       wh_Events = ''update'' \<rparr>"

definition delete_hook :: Webhook where
  "delete_hook =
     \<lparr> wh_ID = ''w2'', wh_DocumentID = ''doc'', wh_URL = ''http://b'', wh_Secret = ''hunter2'',
       wh_Events = ''update,delete'' \<rparr>"

text \<open>The event sent to the first sample webhook, and the request built for it.\<close>

definition sample_event :: WebhookEventRequest where
  "sample_event =
     \<lparr> ev_WebhookID = ''w1'', ev_Event = ''update'', ev_CreatedAt = 1000,
       ev_Document = sample_document \<rparr>"

definition sample_request :: "Env \<Rightarrow> OutRequest" where
  "sample_request env =
     outbound_request sample_server env (WithSpan ''executeWebhook'' (Root None))
       ''http://a'' ''token'' ''{}''"

text \<open>
  Two requests about the first sample webhook: its document and id with a secret that is
  not its own, and its secret with an id that does not exist; and a body for PATCH.
\<close>

definition wrong_secret_request :: "'b \<Rightarrow> 'b Request" where
  "wrong_secret_request body =
     \<lparr> documentID = ''doc'', webhookID = ''w1'', Authorization = ''Secret guess'',
       claims_Permissions = {}, Body = Inr body \<rparr>"

definition no_such_id_request :: "'b \<Rightarrow> 'b Request" where
  "no_such_id_request body =
     \<lparr> documentID = ''doc'', webhookID = ''w9'', Authorization = ''Secret token'',
       claims_Permissions = {}, Body = Inr body \<rparr>"

definition sample_update :: WebhookUpdateRequest where
  "sample_update = \<lparr> update_URL = ''http://c'', update_Secret = [], update_Events = [] \<rparr>"

text \<open>
  The delivery of the sample event by the sample server under a given configuration, to
  the subscriber that never answers with success.
\<close>

definition sample_delivery :: "WebhookConfig \<Rightarrow> effect list" where
  "sample_delivery cfg =
     executeWebhook (sample_server\<lparr> cfg_Webhook := cfg \<rparr>) failing_env (Root None)
       ''http://a'' ''token'' sample_event"

section \<open>Lemmas\<close>

subsection \<open>Bytes and letters\<close>

lemma of_char_lt: "(of_char c :: nat) < 256"
  by (metis of_char_mod_256 mod_less_divisor zero_less_numeral)

lemma code_upper:
  "(of_char (upper_byte c) :: nat) =
     (if 97 \<le> (of_char c :: nat) \<and> (of_char c :: nat) \<le> 122 then of_char c - 32 else of_char c)"
  by (simp add: upper_byte_def less_imp_diff_less of_char_lt)

lemma code_lower:
  "(of_char (lower_byte c) :: nat) =
     (if 65 \<le> (of_char c :: nat) \<and> (of_char c :: nat) \<le> 90 then of_char c + 32 else of_char c)"
  using of_char_lt[of c] by (simp add: lower_byte_def)

lemma char_eq_code: "(c = d) = ((of_char c :: nat) = of_char d)"
  by (metis char_of_char)

lemma upper_lower: "upper_byte c = upper_byte d \<longleftrightarrow> lower_byte c = lower_byte d"
proof -
  define n m where nm: "n = (of_char c :: nat)" "m = (of_char d :: nat)"
  have U: "upper_byte c = upper_byte d \<longleftrightarrow>
      (if 97 \<le> n \<and> n \<le> 122 then n - 32 else n) = (if 97 \<le> m \<and> m \<le> 122 then m - 32 else m)"
    unfolding char_eq_code[of "upper_byte c"] code_upper nm by (rule refl)
  have L: "lower_byte c = lower_byte d \<longleftrightarrow>
      (if 65 \<le> n \<and> n \<le> 90 then n + 32 else n) = (if 65 \<le> m \<and> m \<le> 90 then m + 32 else m)"
    unfolding char_eq_code[of "lower_byte c"] code_lower nm by (rule refl)
  show ?thesis unfolding U L by (simp split: if_splits) arith
qed

lemma ToUpper_EqualFold: "ToUpper s = ToUpper t \<longleftrightarrow> EqualFold s t"
  unfolding ToUpper_def EqualFold_def
proof (induction s arbitrary: t)
  case Nil
  then show ?case by simp
next
  case (Cons c s)
  then show ?case by (cases t) (simp_all add: upper_lower)
qed

lemma ToUpper_SECRET: "ToUpper ''SECRET'' = ''SECRET''"
  by code_simp

lemma ToUpper_eq_SECRET: "ToUpper s = ''SECRET'' \<longleftrightarrow> EqualFold s ''SECRET''"
  using ToUpper_EqualFold[of s "''SECRET''"] by (simp only: ToUpper_SECRET)

subsection \<open>Traces\<close>

lemma sends_append: "sends (xs @ ys) = sends xs @ sends ys"
  by (induction xs rule: sends.induct) simp_all

lemma error_logs_append: "error_logs (xs @ ys) = error_logs xs @ error_logs ys"
  by (induction xs rule: error_logs.induct) simp_all

lemma db_calls_append: "db_calls (xs @ ys) = db_calls xs @ db_calls ys"
  by (induction xs rule: db_calls.induct) simp_all

lemma schedule_append: "schedule (xs @ ys) = schedule xs @ schedule ys"
  by (simp add: schedule_def)

lemma wg_ops_append: "wg_ops (xs @ ys) = wg_ops xs @ wg_ops ys"
  by (simp add: wg_ops_def)

subsection \<open>Floating point on whole numbers\<close>

lemma round_half_even_of_int: "round_half_even (of_int z) = z"
  by (simp add: round_half_even_def)

lemma pow2_neg: "e \<le> 0 \<Longrightarrow> pow2 e * 2 ^ nat (- e) = 1"
  by (cases "e = 0") (simp_all add: pow2_def)

text \<open>A whole number under \<open>2 ^ 53\<close> in absolute value is a value of the format.\<close>

lemma round64_of_int:
  assumes "\<bar>n\<bar> < 2 ^ 53"
  shows "round64 (of_int n) = Finite (of_int n)"
proof (cases "n = 0")
  case True
  then show ?thesis by (simp add: round64_def)
next
  case False
  define m where "m = \<bar>n\<bar>"
  have m: "1 \<le> m" "m < 2 ^ 53" using False assms by (simp_all add: m_def)
  have a: "\<bar>rat_of_int n\<bar> = of_int m" by (simp add: m_def)
  have "bitlen m \<le> 53" using m by (simp add: bitlen_le_iff_power)
  moreover have il: "ilog2 (of_int m) = bitlen m - 1" using m by (simp add: ilog2_def)
  ultimately have "ilog2 (of_int m) - 52 \<le> 0" by simp
  define e where "e = max (ilog2 (of_int m) - 52) (- 1074)"
  have e: "e \<le> 0" using \<open>ilog2 (of_int m) - 52 \<le> 0\<close> by (simp add: e_def)
  have p: "pow2 e * 2 ^ nat (- e) = 1" using e by (rule pow2_neg)
  have pos: "pow2 e \<noteq> 0" using p by auto
  have "rat_of_int m / pow2 e = of_int m * 2 ^ nat (- e)"
    using p pos by (simp add: field_simps)
  also have "\<dots> = of_int (m * 2 ^ nat (- e))" by simp
  finally have q: "rat_of_int m / pow2 e = of_int (m * 2 ^ nat (- e))" .
  have y: "of_int (round_half_even (rat_of_int m / pow2 e)) * pow2 e = of_int m"
    unfolding q round_half_even_of_int using p by (simp add: mult.assoc mult.commute)
  have "rat_of_int m < 2 ^ 53" using m by (metis of_int_less_numeral_power_cancel_iff)
  also have "\<dots> \<le> pow2 1024" by (simp add: pow2_def)
  finally have small: "\<not> pow2 1024 \<le> rat_of_int m" by simp
  have nz: "rat_of_int n \<noteq> 0" using False by simp
  show ?thesis
    unfolding round64_def a Let_def e_def[symmetric] y
    using nz small False by (auto simp add: m_def)
qed

lemma fmul_of_int:
  assumes "\<bar>a\<bar> < 2 ^ 53" and "\<bar>b\<bar> < 2 ^ 53" and "\<bar>a * b\<bar> < 2 ^ 53"
  shows "fmul (Finite (of_int a)) (Finite (of_int b)) = Finite (of_int (a * b))"
proof -
  have "round64 (of_int a * of_int b) = Finite (of_int (a * b))"
    using round64_of_int[OF assms(3)] by simp
  then show ?thesis
    by (simp add: fmul_def round64_of_int[OF assms(1)] round64_of_int[OF assms(2)])
qed

lemma trunc_of_int: "trunc (of_int z) = z"
  by (simp add: trunc_def)

lemma Duration_of_int:
  assumes "\<bar>z\<bar> < 2 ^ 53"
  shows "Duration env (Finite (of_int z)) = z"
proof -
  have "- (2 ^ 63) \<le> z" "z < 2 ^ 63" using assms by simp_all
  then show ?thesis
    by (simp add: Duration_def round64_of_int[OF assms] trunc_of_int)
qed

text \<open>
  Where the factor is a whole number and it, the base and the products are under
  \<open>2 ^ 53\<close>, the computed backoff is the product.
\<close>

lemma backoff_of_exact:
  assumes "BackoffFactor cfg = Finite (of_int k)"
    and "\<bar>k\<bar> < 2 ^ 53" and "\<bar>Backoff cfg\<bar> < 2 ^ 53" and "\<bar>k * Backoff cfg\<bar> < 2 ^ 53"
    and "int i < 2 ^ 53" and "\<bar>k * Backoff cfg * int i\<bar> < 2 ^ 53"
  shows "backoff_of env cfg i = k * Backoff cfg * int i"
proof -
  have i: "\<bar>int i\<bar> < 2 ^ 53" using assms(5) by simp
  have "fmul (BackoffFactor cfg) (float64_of_int (Backoff cfg)) = Finite (of_int (k * Backoff cfg))"
    by (simp only: assms(1) float64_of_int_def round64_of_int[OF assms(3)]
        fmul_of_int[OF assms(2) assms(3) assms(4)])
  moreover have "float64_of_int (int i) = Finite (of_int (int i))"
    by (simp only: float64_of_int_def round64_of_int[OF i])
  ultimately have "backoff_of env cfg i
      = Duration env (fmul (Finite (of_int (k * Backoff cfg))) (Finite (of_int (int i))))"
    by (simp only: backoff_of_def)
  also have "\<dots> = Duration env (Finite (of_int (k * Backoff cfg * int i)))"
    by (simp only: fmul_of_int[OF assms(4) i assms(6)])
  also have "\<dots> = k * Backoff cfg * int i"
    by (rule Duration_of_int[OF assms(6)])
  finally show ?thesis .
qed

subsection \<open>Sample roundings\<close>

text \<open>A positive number that rounds to less than \<open>2 ^ 70\<close>.\<close>

lemma round64_pos:
  assumes "0 < x" and "e = max (ilog2 x - 52) (- 1074)"
    and "y = of_int (round_half_even (x / pow2 e)) * pow2 e" and "y < 2 ^ 70"
  shows "round64 x = Finite y"
proof -
  have "(2::rat) ^ 70 \<le> 2 ^ 1024" by (rule power_increasing) simp_all
  also have "\<dots> = pow2 1024" by (simp add: pow2_def)
  finally have "\<not> pow2 1024 \<le> y" using assms(4) by simp
  moreover have "\<bar>x\<bar> = x" "x \<noteq> 0" "\<not> x < 0" using assms(1) by simp_all
  ultimately show ?thesis
    by (simp only: round64_def Let_def assms(2)[symmetric] assms(3)[symmetric] if_False)
qed

lemma round64_0: "round64 0 = Finite 0"
  by (simp add: round64_def)

lemma round64_whole:
  "round64 1 = Finite 1" "round64 2 = Finite 2" "round64 4 = Finite 4" "round64 7 = Finite 7"
  "round64 10 = Finite 10" "round64 14 = Finite 14"
  using round64_of_int[of 1] round64_of_int[of 2] round64_of_int[of 4] round64_of_int[of 7]
    round64_of_int[of 10] round64_of_int[of 14]
  by simp_all

lemma round64_0_7:
  "round64 (7 / 10) = Finite (3152519739159347 / 4503599627370496)"
  by (rule round64_pos[where e = "- 53"]) code_simp+

lemma round64_0_7_times_10:
  "round64 (15762598695796735 / 2251799813685248) = Finite 7"
  by (rule round64_pos[where e = "- 50"]) code_simp+

lemma round64_big:
  "round64 4611686018427387904 = Finite 4611686018427387904"
  "round64 18446744073709551616 = Finite 18446744073709551616"
  "round64 36893488147419103232 = Finite 36893488147419103232"
  by (rule round64_pos[where e = 10], code_simp, code_simp, code_simp, code_simp)
     (rule round64_pos[where e = 12], code_simp, code_simp, code_simp, code_simp,
      rule round64_pos[where e = 13], code_simp, code_simp, code_simp, code_simp)

lemma rounding_backoff:
  "backoff_of failing_env rounding_cfg 0 = 0"
  "backoff_of failing_env rounding_cfg 1 = 7"
  "backoff_of failing_env rounding_cfg 2 = 14"
  by (simp_all add: backoff_of_def rounding_cfg_def sample_cfg_def fmul_def float64_of_int_def
      Duration_def trunc_def round64_0 round64_whole round64_0_7 round64_0_7_times_10)

lemma overflow_backoff:
  "backoff_of failing_env overflow_cfg 0 = 0"
  "backoff_of failing_env overflow_cfg 1 = - 9223372036854775808"
  "backoff_of failing_env overflow_cfg 2 = - 9223372036854775808"
  by (simp_all add: backoff_of_def overflow_cfg_def sample_cfg_def fmul_def float64_of_int_def
      Duration_def trunc_def round64_0 round64_whole round64_big failing_env_def)

lemma zero_cap_backoff:
  "backoff_of failing_env zero_cap_cfg i = (if i < 3 then 200000000 * int i else backoff_of failing_env zero_cap_cfg i)"
proof (cases "i < 3")
  case True
  have "backoff_of failing_env zero_cap_cfg i = 2 * Backoff zero_cap_cfg * int i"
    using True by (intro backoff_of_exact) (simp_all add: zero_cap_cfg_def sample_cfg_def)
  with True show ?thesis by (simp add: zero_cap_cfg_def sample_cfg_def)
next
  case False
  then show ?thesis by simp
qed

lemma sample_floors:
  "\<lfloor>15762598695796735 / 2251799813685248 :: rat\<rfloor> = 6"
  "\<lfloor>15762598695796735 / 1125899906842624 :: rat\<rfloor> = 13"
  by (simp_all add: floor_eq_iff)

lemma spec_pauses:
  "spec_pause zero_cap_cfg 0 = []" "spec_pause zero_cap_cfg 1 = []" "spec_pause zero_cap_cfg 2 = []"
  "spec_pause rounding_cfg 0 = []" "spec_pause rounding_cfg 1 = [Sleep 6]"
  "spec_pause rounding_cfg 2 = [Sleep 13]"
  "spec_pause overflow_cfg 0 = []" "spec_pause overflow_cfg 1 = [Sleep 300000000]"
  "spec_pause overflow_cfg 2 = [Sleep 300000000]"
  by (simp_all add: spec_pause_def spec_delay_def zero_cap_cfg_def rounding_cfg_def
      overflow_cfg_def sample_cfg_def trunc_def round64_whole round64_0_7 sample_floors)

subsection \<open>The backoff\<close>

lemma schedule_sleep_step: "schedule (sleep_step env cfg i) = backoff_pause env cfg i"
  by (simp add: sleep_step_def backoff_pause_def schedule_def min_def)

subsection \<open>The retry loop\<close>

lemma loop_stop:
  "\<not> int i < MaxTries cfg \<Longrightarrow> executeWebhook_loop cfg env rq i = max_tries_reached"
  by (subst executeWebhook_loop.simps) (simp add: max_tries_reached_def)

lemma loop_success:
  "int i < MaxTries cfg \<Longrightarrow> success (client_Do env rq i) \<Longrightarrow>
   executeWebhook_loop cfg env rq i = successful_attempt cfg env rq i"
  by (subst executeWebhook_loop.simps)
     (cases "client_Do env rq i"; simp add: successful_attempt_def sleep_step_def)

lemma loop_failure:
  "int i < MaxTries cfg \<Longrightarrow> \<not> success (client_Do env rq i) \<Longrightarrow>
   executeWebhook_loop cfg env rq i =
     failed_attempt cfg env rq i @ executeWebhook_loop cfg env rq (Suc i)"
  by (subst executeWebhook_loop.simps)
     (cases "client_Do env rq i"; auto simp add: failed_attempt_def sleep_step_def)

text \<open>
  The loop unrolled: the iterations whose attempt fails, up to the first attempt that
  succeeds or to the end of the tries.
\<close>

lemma loop_closed_form:
  "executeWebhook_loop cfg env rq i =
     concat (map (failed_attempt cfg env rq)
       (takeWhile (\<lambda>j. \<not> success (client_Do env rq j)) [i..<nat (MaxTries cfg)]))
     @ (let f = length (takeWhile (\<lambda>j. \<not> success (client_Do env rq j)) [i..<nat (MaxTries cfg)])
        in if i + f < nat (MaxTries cfg) then successful_attempt cfg env rq (i + f)
           else max_tries_reached)"
proof (induction "nat (MaxTries cfg) - i" arbitrary: i)
  case 0
  then have "\<not> int i < MaxTries cfg" "\<not> i < nat (MaxTries cfg)" by linarith+
  then show ?case by (simp add: loop_stop)
next
  case (Suc k)
  then have lt: "int i < MaxTries cfg" and lt': "i < nat (MaxTries cfg)" by linarith+
  have upt: "[i..<nat (MaxTries cfg)] = i # [Suc i..<nat (MaxTries cfg)]"
    using lt' by (simp add: upt_conv_Cons)
  show ?case
  proof (cases "success (client_Do env rq i)")
    case True
    then show ?thesis using lt lt' by (simp add: upt loop_success)
  next
    case False
    have k: "k = nat (MaxTries cfg) - Suc i" using Suc.hyps(2) by simp
    show ?thesis
      using False lt by (simp add: upt loop_failure Suc.hyps(1)[OF k] Let_def)
  qed
qed

subsection \<open>The attempts of a delivery\<close>

lemma takeWhile_upt:
  "takeWhile P [i..<n] = [i..<i + length (takeWhile P [i..<n])]"
proof -
  have le: "length (takeWhile P [i..<n]) \<le> n - i"
    using length_takeWhile_le[of P "[i..<n]"] by simp
  have "takeWhile P [i..<n] = take (length (takeWhile P [i..<n])) [i..<n]"
    by (rule takeWhile_eq_take)
  also have "\<dots> = [i..<i + length (takeWhile P [i..<n])]"
    using le by (cases "i \<le> n") (simp_all add: take_upt)
  finally show ?thesis .
qed

lemma failures_le: "failures_before_success env rq n \<le> n"
  using length_takeWhile_le[of "\<lambda>j. \<not> success (client_Do env rq j)" "[0..<n]"]
  by (simp add: failures_before_success_def)

lemma failures_all_fail:
  "j < failures_before_success env rq n \<Longrightarrow> \<not> success (client_Do env rq j)"
proof -
  assume j: "j < failures_before_success env rq n"
  let ?P = "\<lambda>j. \<not> success (client_Do env rq j)"
  have "takeWhile ?P [0..<n] ! j = j"
    using j takeWhile_upt[of ?P 0 n] unfolding failures_before_success_def
    by (metis add_0 nth_upt)
  moreover have "takeWhile ?P [0..<n] ! j \<in> set (takeWhile ?P [0..<n])"
    using j by (simp add: failures_before_success_def)
  ultimately show ?thesis using set_takeWhileD by fastforce
qed

lemma failures_then_success:
  "failures_before_success env rq n < n \<Longrightarrow>
   success (client_Do env rq (failures_before_success env rq n))"
proof -
  let ?P = "\<lambda>j. \<not> success (client_Do env rq j)"
  assume lt: "failures_before_success env rq n < n"
  then have "length (takeWhile ?P [0..<n]) < length [0..<n]"
    by (simp add: failures_before_success_def)
  then have "\<not> ?P ([0..<n] ! length (takeWhile ?P [0..<n]))"
    by (rule nth_length_takeWhile)
  then show ?thesis using lt by (simp add: failures_before_success_def)
qed

lemma loop_from_start:
  "executeWebhook_loop cfg env rq 0 =
     concat (map (failed_attempt cfg env rq)
        [0..<failures_before_success env rq (nat (MaxTries cfg))])
     @ (if failures_before_success env rq (nat (MaxTries cfg)) < nat (MaxTries cfg)
        then successful_attempt cfg env rq (failures_before_success env rq (nat (MaxTries cfg)))
        else max_tries_reached)"
proof -
  let ?P = "\<lambda>j. \<not> success (client_Do env rq j)"
  let ?n = "nat (MaxTries cfg)"
  have tw: "takeWhile ?P [0..<?n] = [0..<failures_before_success env rq ?n]"
    using takeWhile_upt[of ?P 0 ?n] by (simp add: failures_before_success_def)
  show ?thesis
    using loop_closed_form[of cfg env rq 0]
    by (simp only: tw Let_def add_0 failures_before_success_def[symmetric] length_upt diff_zero)
qed

lemma executeWebhook_built:
  "json_Encode env request = Inr buff \<Longrightarrow> NewRequest_error env url = None \<Longrightarrow>
   executeWebhook s env ctx url secret request =
     Log LevelDebug ''emitting webhook'' #
     executeWebhook_loop (cfg_Webhook s) env
       (outbound_request s env (WithSpan ''executeWebhook'' ctx) url secret buff) 0
     @ [SpanEnd]"
  by (simp add: executeWebhook_def)

lemma executeWebhook_not_built:
  "(\<exists>err. json_Encode env request = Inl err) \<or> (\<exists>err. NewRequest_error env url = Some err) \<Longrightarrow>
   sends (executeWebhook s env ctx url secret request) = []
   \<and> schedule (executeWebhook s env ctx url secret request) = []"
  by (auto simp add: executeWebhook_def schedule_def split: sum.splits option.splits)

lemma schedule_Nil: "schedule [] = []"
  by (simp add: schedule_def)

lemma schedule_concat_map:
  "(\<And>x. schedule (f x) = g x) \<Longrightarrow> schedule (concat (map f xs)) = concat (map g xs)"
  by (induction xs) (simp_all add: schedule_append schedule_Nil)

lemma schedule_failed_attempt:
  "schedule (failed_attempt cfg env rq i) = backoff_pause env cfg i @ [ClientDo rq]"
proof -
  have "schedule [ClientDo rq, failure_log (client_Do env rq i)] = [ClientDo rq]"
    by (cases "client_Do env rq i") (simp_all add: schedule_def)
  then show ?thesis
    by (simp only: failed_attempt_def schedule_append schedule_sleep_step)
qed

lemma schedule_successful_attempt:
  "schedule (successful_attempt cfg env rq i) = backoff_pause env cfg i @ [ClientDo rq]"
proof -
  have "schedule [ClientDo rq, Log LevelDebug ''successfully executed webhook''] = [ClientDo rq]"
    by (simp add: schedule_def)
  then show ?thesis
    by (simp only: successful_attempt_def schedule_append schedule_sleep_step)
qed

lemma schedule_max_tries_reached: "schedule max_tries_reached = []"
  by (simp add: max_tries_reached_def schedule_def)

lemma schedule_failed_attempts:
  "schedule (concat (map (failed_attempt cfg env rq) xs))
     = concat (map (\<lambda>i. backoff_pause env cfg i @ [ClientDo rq]) xs)"
  by (rule schedule_concat_map) (rule schedule_failed_attempt)

lemma loop_schedule:
  "schedule (executeWebhook_loop cfg env rq 0) =
     concat (map (\<lambda>i. backoff_pause env cfg i @ [ClientDo rq])
       [0..<min (Suc (failures_before_success env rq (nat (MaxTries cfg)))) (nat (MaxTries cfg))])"
proof -
  let ?n = "nat (MaxTries cfg)"
  let ?f = "failures_before_success env rq ?n"
  let ?g = "\<lambda>i. backoff_pause env cfg i @ [ClientDo rq]"
  have le: "?f \<le> ?n" by (rule failures_le)
  note m = schedule_failed_attempts
  show ?thesis
  proof (cases "?f < ?n")
    case True
    then have "min (Suc ?f) ?n = Suc ?f" by simp
    then show ?thesis
      using True
      by (simp add: loop_from_start[of cfg env rq] schedule_append m
          schedule_successful_attempt)
  next
    case False
    with le have "min (Suc ?f) ?n = ?f" by simp
    then show ?thesis
      using False
      by (simp add: loop_from_start[of cfg env rq] schedule_append m
          schedule_max_tries_reached)
  qed
qed

lemma failures_all:
  "(\<forall>j<n. \<not> success (client_Do env rq j)) \<Longrightarrow> failures_before_success env rq n = n"
proof -
  assume a: "\<forall>j<n. \<not> success (client_Do env rq j)"
  have "takeWhile (\<lambda>j. \<not> success (client_Do env rq j)) [0..<n] = [0..<n]"
    using a by (simp add: takeWhile_eq_all_conv)
  then show ?thesis by (simp only: failures_before_success_def length_upt diff_zero)
qed

lemma failures_first:
  "k < n \<Longrightarrow> (\<forall>j<k. \<not> success (client_Do env rq j)) \<Longrightarrow> success (client_Do env rq k) \<Longrightarrow>
   failures_before_success env rq n = k"
proof -
  assume k: "k < n" and a: "\<forall>j<k. \<not> success (client_Do env rq j)"
    and b: "success (client_Do env rq k)"
  let ?f = "failures_before_success env rq n"
  have "\<not> ?f < k" using failures_then_success[of env rq n] a k by (metis order_less_trans)
  moreover have "\<not> k < ?f" using failures_all_fail[of k env rq n] b by blast
  ultimately show ?thesis by simp
qed

lemma upt_3: "[0..<3] = [0, 1, 2]" "[0..<2] = [0, 1]"
  by (simp_all add: upt_rec)

lemma sends_concat_map:
  "(\<And>x. sends (f x) = [rq]) \<Longrightarrow> sends (concat (map f xs)) = replicate (length xs) rq"
  by (induction xs) (simp_all add: sends_append)

lemma error_logs_concat_map:
  "(\<And>x. error_logs (f x) = []) \<Longrightarrow> error_logs (concat (map f xs)) = []"
  by (induction xs) (simp_all add: error_logs_append)

lemma sends_sleep_step: "sends (sleep_step env cfg i) = []"
  by (simp add: sleep_step_def)

lemma error_logs_sleep_step: "error_logs (sleep_step env cfg i) = []"
  by (simp add: sleep_step_def)

lemma sends_failed_attempt: "sends (failed_attempt cfg env rq i) = [rq]"
  by (cases "client_Do env rq i") (simp_all add: failed_attempt_def sends_append sends_sleep_step)

lemma error_logs_failed_attempt: "error_logs (failed_attempt cfg env rq i) = []"
  by (cases "client_Do env rq i")
     (simp_all add: failed_attempt_def error_logs_append error_logs_sleep_step)

lemma sends_successful_attempt: "sends (successful_attempt cfg env rq i) = [rq]"
  by (simp add: successful_attempt_def sends_append sends_sleep_step)

lemma error_logs_successful_attempt: "error_logs (successful_attempt cfg env rq i) = []"
  by (simp add: successful_attempt_def error_logs_append error_logs_sleep_step)

lemma sends_max_tries_reached: "sends max_tries_reached = []"
  by (simp add: max_tries_reached_def)

lemma error_logs_max_tries_reached:
  "error_logs max_tries_reached = [''failed to execute webhook'']"
  by (simp add: max_tries_reached_def)

lemma loop_sends:
  "sends (executeWebhook_loop cfg env rq 0) =
     replicate (min (Suc (failures_before_success env rq (nat (MaxTries cfg)))) (nat (MaxTries cfg))) rq"
proof -
  let ?n = "nat (MaxTries cfg)"
  let ?f = "failures_before_success env rq ?n"
  have le: "?f \<le> ?n" by (rule failures_le)
  have m: "sends (concat (map (failed_attempt cfg env rq) xs)) = replicate (length xs) rq" for xs
    by (rule sends_concat_map) (rule sends_failed_attempt)
  show ?thesis
  proof (cases "?f < ?n")
    case True
    then have "min (Suc ?f) ?n = Suc ?f" by simp
    then show ?thesis
      using True
      by (simp add: loop_from_start[of cfg env rq] sends_append m sends_successful_attempt
          replicate_append_same)
  next
    case False
    with le have "min (Suc ?f) ?n = ?f" by simp
    then show ?thesis
      using False
      by (simp add: loop_from_start[of cfg env rq] sends_append m sends_max_tries_reached)
  qed
qed

lemma loop_error_logs:
  "error_logs (executeWebhook_loop cfg env rq 0) =
     (if failures_before_success env rq (nat (MaxTries cfg)) < nat (MaxTries cfg) then []
      else [''failed to execute webhook''])"
proof -
  have m: "error_logs (concat (map (failed_attempt cfg env rq) xs)) = []" for xs
    by (rule error_logs_concat_map) (rule error_logs_failed_attempt)
  show ?thesis
    by (simp add: loop_from_start[of cfg env rq] error_logs_append m
        error_logs_successful_attempt error_logs_max_tries_reached)
qed

lemma executeWebhook_sends_le:
  "length (sends (executeWebhook s env ctx url secret request)) \<le> nat (MaxTries (cfg_Webhook s))"
proof (cases "json_Encode env request")
  case (Inl err)
  then show ?thesis by (simp add: executeWebhook_def)
next
  case (Inr buff)
  show ?thesis
  proof (cases "NewRequest_error env url")
    case (Some err)
    with Inr show ?thesis by (simp add: executeWebhook_def)
  next
    case None
    show ?thesis
      by (simp add: executeWebhook_built[OF Inr None] sends_append loop_sends)
  qed
qed

subsection \<open>The dispatcher\<close>

lemma db_contexts_append: "db_contexts (xs @ ys) = db_contexts xs @ db_contexts ys"
  by (induction xs rule: db_contexts.induct) simp_all

lemma deliveries_filter:
  "deliveries s env ctx event document now webhooks =
     map (\<lambda>w. (w, executeWebhook s env ctx (wh_URL w) (wh_Secret w)
                    \<lparr> ev_WebhookID = wh_ID w, ev_Event = event, ev_CreatedAt = now,
                      ev_Document = document \<rparr>))
       (filter (subscribed event) webhooks)"
  by (induction webhooks) (simp_all add: subscribed_def)

text \<open>The three ways through \<open>executeWebhooks\<close>, and all of them at once.\<close>

lemma executeWebhooks_lookup_failed:
  "lookup s st event document = (Inl err, st') \<Longrightarrow>
   executeWebhooks s env st ctx event document =
     (\<lparr> before_tasks =
          [DbCall (WithTimeout (time_Now env) ctx (Timeout (cfg_Webhook s)))
             (lookup_call event document),
           Log LevelError ''failed to get webhooks by document id''],
        tasks = [], after_tasks = [WgDone] \<rparr>, st')"
  by (auto simp add: executeWebhooks_def lookup_def lookup_call_def WebhookEventDelete_def
      Let_def split: if_splits)

lemma executeWebhooks_none:
  "lookup s st event document = (Inr [], st') \<Longrightarrow>
   executeWebhooks s env st ctx event document =
     (\<lparr> before_tasks =
          [DbCall (WithTimeout (time_Now env) ctx (Timeout (cfg_Webhook s)))
             (lookup_call event document)],
        tasks = [], after_tasks = [WgDone] \<rparr>, st')"
  by (auto simp add: executeWebhooks_def lookup_def lookup_call_def WebhookEventDelete_def
      Let_def split: if_splits)

lemma executeWebhooks_some:
  "lookup s st event document = (Inr webhooks, st') \<Longrightarrow> webhooks \<noteq> [] \<Longrightarrow>
   executeWebhooks s env st ctx event document =
     (\<lparr> before_tasks =
          [DbCall (WithTimeout (time_Now env) ctx (Timeout (cfg_Webhook s)))
             (lookup_call event document)],
        tasks = map (\<lambda>w. (w, executeWebhook s env ctx (wh_URL w) (wh_Secret w)
                              (event_request env event document w)))
                  (filter (subscribed event) webhooks),
        after_tasks = [Log LevelDebug ''finished emitting webhooks'', WgDone] \<rparr>, st')"
  by (auto simp add: executeWebhooks_def lookup_def lookup_call_def WebhookEventDelete_def
      Let_def deliveries_filter event_request_def split: if_splits)


lemma executeWebhooks_run:
  "executeWebhooks s env st ctx event document =
     (\<lparr> before_tasks =
          DbCall (WithTimeout (time_Now env) ctx (Timeout (cfg_Webhook s)))
            (lookup_call event document)
          # (case fst (lookup s st event document) of
               Inl err \<Rightarrow> [Log LevelError ''failed to get webhooks by document id'']
             | Inr webhooks \<Rightarrow> []),
        tasks = map (\<lambda>w. (w, executeWebhook s env ctx (wh_URL w) (wh_Secret w)
                              (event_request env event document w)))
                  (filter (subscribed event) (resolved (fst (lookup s st event document)))),
        after_tasks =
          (if resolved (fst (lookup s st event document)) = [] then [WgDone]
           else [Log LevelDebug ''finished emitting webhooks'', WgDone]) \<rparr>,
      snd (lookup s st event document))"
proof (cases "lookup s st event document")
  case (Pair result st')
  show ?thesis
  proof (cases result)
    case (Inl err)
    with Pair show ?thesis by (simp add: executeWebhooks_lookup_failed)
  next
    case (Inr webhooks)
    show ?thesis
    proof (cases "webhooks = []")
      case True
      with Pair Inr show ?thesis by (simp add: executeWebhooks_none)
    next
      case False
      with Pair Inr show ?thesis by (simp add: executeWebhooks_some)
    qed
  qed
qed

lemma sends_executeWebhook_ctx:
  "rq \<in> set (sends (executeWebhook s env ctx url secret request)) \<Longrightarrow>
   rq_ctx rq = WithSpan ''executeWebhook'' ctx"
proof (cases "json_Encode env request")
  case (Inl err)
  assume "rq \<in> set (sends (executeWebhook s env ctx url secret request))"
  with Inl show ?thesis by (simp add: executeWebhook_def)
next
  case (Inr buff)
  assume rq: "rq \<in> set (sends (executeWebhook s env ctx url secret request))"
  show ?thesis
  proof (cases "NewRequest_error env url")
    case (Some err)
    with Inr rq show ?thesis by (simp add: executeWebhook_def)
  next
    case None
    from rq have "rq = outbound_request s env (WithSpan ''executeWebhook'' ctx) url secret buff"
      by (simp add: executeWebhook_built[OF Inr None] sends_append loop_sends split: if_splits)
    then show ?thesis by (simp add: outbound_request_def)
  qed
qed

lemma wg_ops_simps:
  "wg_ops [] = []" "wg_ops (e # es) = (if wg_op e then e # wg_ops es else wg_ops es)"
  by (simp_all add: wg_ops_def)

lemma wg_ops_concat_map:
  "(\<And>x. wg_ops (f x) = []) \<Longrightarrow> wg_ops (concat (map f xs)) = []"
  by (induction xs) (simp_all add: wg_ops_append wg_ops_simps)

lemma db_calls_concat_map:
  "(\<And>x. db_calls (f x) = []) \<Longrightarrow> db_calls (concat (map f xs)) = []"
  by (induction xs) (simp_all add: db_calls_append)

lemma db_contexts_concat_map:
  "(\<And>x. db_contexts (f x) = []) \<Longrightarrow> db_contexts (concat (map f xs)) = []"
  by (induction xs) (simp_all add: db_contexts_append)

lemma quiet_sleep_step:
  "wg_ops (sleep_step env cfg i) = []" "db_calls (sleep_step env cfg i) = []"
  "db_contexts (sleep_step env cfg i) = []"
  by (simp_all add: sleep_step_def wg_ops_simps)

lemma quiet_failed_attempt:
  "wg_ops (failed_attempt cfg env rq i) = []" "db_calls (failed_attempt cfg env rq i) = []"
  "db_contexts (failed_attempt cfg env rq i) = []"
  by (cases "client_Do env rq i";
      simp add: failed_attempt_def wg_ops_append db_calls_append db_contexts_append
        quiet_sleep_step wg_ops_simps)+

lemma quiet_successful_attempt:
  "wg_ops (successful_attempt cfg env rq i) = []" "db_calls (successful_attempt cfg env rq i) = []"
  "db_contexts (successful_attempt cfg env rq i) = []"
  by (simp_all add: successful_attempt_def wg_ops_append db_calls_append db_contexts_append
        quiet_sleep_step wg_ops_simps)

lemma quiet_max_tries_reached:
  "wg_ops max_tries_reached = []" "db_calls max_tries_reached = []"
  "db_contexts max_tries_reached = []"
  by (simp_all add: max_tries_reached_def wg_ops_simps)

lemma quiet_loop:
  "wg_ops (executeWebhook_loop cfg env rq 0) = []"
  "db_calls (executeWebhook_loop cfg env rq 0) = []"
  "db_contexts (executeWebhook_loop cfg env rq 0) = []"
proof -
  have a: "wg_ops (concat (map (failed_attempt cfg env rq) xs)) = []" for xs
    by (rule wg_ops_concat_map) (rule quiet_failed_attempt)
  have b: "db_calls (concat (map (failed_attempt cfg env rq) xs)) = []" for xs
    by (rule db_calls_concat_map) (rule quiet_failed_attempt)
  have c: "db_contexts (concat (map (failed_attempt cfg env rq) xs)) = []" for xs
    by (rule db_contexts_concat_map) (rule quiet_failed_attempt)
  show "wg_ops (executeWebhook_loop cfg env rq 0) = []"
    by (simp add: loop_from_start[of cfg env rq] wg_ops_append a quiet_successful_attempt
        quiet_max_tries_reached)
  show "db_calls (executeWebhook_loop cfg env rq 0) = []"
    by (simp add: loop_from_start[of cfg env rq] db_calls_append b quiet_successful_attempt
        quiet_max_tries_reached)
  show "db_contexts (executeWebhook_loop cfg env rq 0) = []"
    by (simp add: loop_from_start[of cfg env rq] db_contexts_append c quiet_successful_attempt
        quiet_max_tries_reached)
qed

lemma quiet_executeWebhook:
  "wg_ops (executeWebhook s env ctx url secret request) = []"
  "db_calls (executeWebhook s env ctx url secret request) = []"
  "db_contexts (executeWebhook s env ctx url secret request) = []"
  by (simp_all add: executeWebhook_def wg_ops_append db_calls_append db_contexts_append
      quiet_loop wg_ops_simps split: sum.splits option.splits)

lemma dispatch_disabled:
  "\<not> Enabled (cfg_Webhook s) \<Longrightarrow> dispatch s env st ctx event document = ([], None, st)"
  by (simp add: dispatch_def ExecuteWebhooks_def)

lemma dispatch_enabled:
  "Enabled (cfg_Webhook s) \<Longrightarrow>
   dispatch s env st ctx event document =
     ([WgAdd 1],
      Some ((fst (executeWebhooks s env st (WithSpan ''executeWebhooks'' (WithoutCancel ctx))
                    event document))
              \<lparr> after_tasks :=
                  after_tasks (fst (executeWebhooks s env st
                    (WithSpan ''executeWebhooks'' (WithoutCancel ctx)) event document))
                  @ [SpanEnd] \<rparr>),
      snd (executeWebhooks s env st (WithSpan ''executeWebhooks'' (WithoutCancel ctx))
             event document))"
  by (simp add: dispatch_def ExecuteWebhooks_def run_goroutine_def split: prod.splits)

lemma tasks_quiet:
  "wg_ops (concat (map snd (map (\<lambda>w. (w, executeWebhook s env ctx (url w) (secret w) (req w))) ws))) = []"
  "db_calls (concat (map snd (map (\<lambda>w. (w, executeWebhook s env ctx (url w) (secret w) (req w))) ws))) = []"
  "db_contexts (concat (map snd (map (\<lambda>w. (w, executeWebhook s env ctx (url w) (secret w) (req w))) ws))) = []"
  by (induction ws)
     (simp_all add: wg_ops_append db_calls_append db_contexts_append quiet_executeWebhook
        wg_ops_simps)

lemma sends_tasks:
  "sends (concat (map snd (map (\<lambda>w. (w, f w)) ws))) = concat (map (\<lambda>w. sends (f w)) ws)"
  by (induction ws) (simp_all add: sends_append)

lemma executeWebhook_sends:
  "json_Encode env request = Inr buff \<Longrightarrow> NewRequest_error env url = None \<Longrightarrow>
   sends (executeWebhook s env ctx url secret request) =
     replicate
       (min (Suc (failures_before_success env
                    (outbound_request s env (WithSpan ''executeWebhook'' ctx) url secret buff)
                    (nat (MaxTries (cfg_Webhook s)))))
            (nat (MaxTries (cfg_Webhook s))))
       (outbound_request s env (WithSpan ''executeWebhook'' ctx) url secret buff)"
  by (simp add: executeWebhook_built sends_append loop_sends)

lemma all_effects_run:
  "all_effects (fst (executeWebhooks s env st ctx event document)) =
     DbCall (WithTimeout (time_Now env) ctx (Timeout (cfg_Webhook s)))
       (lookup_call event document)
     # (case fst (lookup s st event document) of
          Inl err \<Rightarrow> [Log LevelError ''failed to get webhooks by document id'']
        | Inr webhooks \<Rightarrow> [])
     @ concat (map (\<lambda>w. executeWebhook s env ctx (wh_URL w) (wh_Secret w)
                            (event_request env event document w))
         (filter (subscribed event) (resolved (fst (lookup s st event document)))))
     @ (if resolved (fst (lookup s st event document)) = [] then [WgDone]
        else [Log LevelDebug ''finished emitting webhooks'', WgDone])"
  by (simp add: all_effects_def executeWebhooks_run comp_def)

lemma sends_run:
  "sends (all_effects (fst (executeWebhooks s env st ctx event document))) =
     concat (map (\<lambda>w. sends (executeWebhook s env ctx (wh_URL w) (wh_Secret w)
                                 (event_request env event document w)))
       (filter (subscribed event) (resolved (fst (lookup s st event document)))))"
proof -
  have "sends (concat (map f ws)) = concat (map (\<lambda>w. sends (f w)) ws)"
    for f :: "Webhook \<Rightarrow> effect list" and ws
    by (induction ws) (simp_all add: sends_append)
  then show ?thesis
    by (simp add: all_effects_run sends_append split: sum.splits)
qed

lemma db_run:
  "db_calls (all_effects (fst (executeWebhooks s env st ctx event document)))
     = [lookup_call event document]"
  "db_contexts (all_effects (fst (executeWebhooks s env st ctx event document)))
     = [WithTimeout (time_Now env) ctx (Timeout (cfg_Webhook s))]"
proof -
  have a: "db_calls (concat (map (\<lambda>w. executeWebhook s env ctx (url w) (secret w) (req w)) ws)) = []"
    for url secret req and ws :: "Webhook list"
    by (rule db_calls_concat_map) (rule quiet_executeWebhook)
  have b: "db_contexts (concat (map (\<lambda>w. executeWebhook s env ctx (url w) (secret w) (req w)) ws)) = []"
    for url secret req and ws :: "Webhook list"
    by (rule db_contexts_concat_map) (rule quiet_executeWebhook)
  show "db_calls (all_effects (fst (executeWebhooks s env st ctx event document)))
     = [lookup_call event document]"
    by (simp add: all_effects_run db_calls_append a split: sum.splits)
  show "db_contexts (all_effects (fst (executeWebhooks s env st ctx event document)))
     = [WithTimeout (time_Now env) ctx (Timeout (cfg_Webhook s))]"
    by (simp add: all_effects_run db_contexts_append b split: sum.splits)
qed

lemma all_effects_span_end:
  "all_effects (d\<lparr> after_tasks := after_tasks d @ [SpanEnd] \<rparr>) = all_effects d @ [SpanEnd]"
  by (simp add: all_effects_def)

lemma sample_dispatch_sends:
  "sends (all_effects (the (fst (snd (dispatch sample_server recovering_env [update_hook]
       (Root (Some 50)) ''update'' sample_document)))))
   = [outbound_request sample_server recovering_env
       (WithSpan ''executeWebhook'' (WithSpan ''executeWebhooks'' (WithoutCancel (Root (Some 50)))))
       ''http://a'' ''token'' ''{}'',
      outbound_request sample_server recovering_env
       (WithSpan ''executeWebhook'' (WithSpan ''executeWebhooks'' (WithoutCancel (Root (Some 50)))))
       ''http://a'' ''token'' ''{}'']"
proof -
  let ?ctx = "WithSpan ''executeWebhooks'' (WithoutCancel (Root (Some 50)))"
  let ?rq = "outbound_request sample_server recovering_env (WithSpan ''executeWebhook'' ?ctx)
       ''http://a'' ''token'' ''{}''"
  have en: "Enabled (cfg_Webhook sample_server)"
    by (simp add: sample_server_def sample_cfg_def)
  have n: "nat (MaxTries (cfg_Webhook sample_server)) = 3"
    by (simp add: sample_server_def sample_cfg_def)
  have f: "failures_before_success recovering_env ?rq 3 = 1"
    by (rule failures_first) (simp_all add: recovering_env_def)
  have l: "resolved (fst (lookup sample_server [update_hook] ''update'' sample_document))
             = [update_hook]"
    by (simp add: lookup_def sample_server_def store_db_def sample_document_def update_hook_def)
  have sub: "subscribed ''update'' update_hook"
    by (simp add: subscribed_def update_hook_def Contains_def)
  have e: "sends (executeWebhook sample_server recovering_env ?ctx (wh_URL update_hook)
              (wh_Secret update_hook)
              (event_request recovering_env ''update'' sample_document update_hook))
            = [?rq, ?rq]"
  proof -
    have "sends (executeWebhook sample_server recovering_env ?ctx ''http://a'' ''token''
              (event_request recovering_env ''update'' sample_document update_hook))
            = replicate (min (Suc (failures_before_success recovering_env ?rq
                 (nat (MaxTries (cfg_Webhook sample_server)))))
                 (nat (MaxTries (cfg_Webhook sample_server)))) ?rq"
      by (rule executeWebhook_sends) (simp_all add: recovering_env_def)
    then show ?thesis by (simp add: n f update_hook_def numeral_2_eq_2)
  qed
  show ?thesis
    by (simp add: dispatch_enabled[OF en] all_effects_span_end sends_append sends_run l sub e)
qed

lemma error_logs_run_failed:
  "fst (lookup s st event document) = Inl err \<Longrightarrow>
   error_logs (all_effects (fst (executeWebhooks s env st ctx event document)))
     = [''failed to get webhooks by document id'']"
  by (simp add: all_effects_run)

lemma delivered_run:
  "delivered_to (fst (executeWebhooks s env st ctx event document))
     = filter (subscribed event) (resolved (fst (lookup s st event document)))"
  by (simp add: delivered_to_def executeWebhooks_run comp_def)

lemma store_db_consuming:
  "db_GetAndDeleteWebhooksByDocumentID store_db st k = (Inr ws, st') \<Longrightarrow>
   fst (db_GetAndDeleteWebhooksByDocumentID store_db st' k) = Inr []"
  by (auto simp add: store_db_def)

lemma executeWebhook_schedule:
  assumes "json_Encode env request = Inr buff" and "NewRequest_error env url = None"
  shows "schedule (executeWebhook s env ctx url secret request) =
     concat (map (\<lambda>i. backoff_pause env (cfg_Webhook s) i
                        @ [ClientDo (outbound_request s env (WithSpan ''executeWebhook'' ctx)
                                       url secret buff)])
       [0..<min (Suc (failures_before_success env
                        (outbound_request s env (WithSpan ''executeWebhook'' ctx) url secret buff)
                        (nat (MaxTries (cfg_Webhook s)))))
                (nat (MaxTries (cfg_Webhook s)))])"
proof -
  have "schedule (executeWebhook s env ctx url secret request)
      = schedule (executeWebhook_loop (cfg_Webhook s) env
          (outbound_request s env (WithSpan ''executeWebhook'' ctx) url secret buff) 0)"
    by (simp add: executeWebhook_built[OF assms] schedule_def)
  then show ?thesis by (simp only: loop_schedule)
qed

lemma sample_delivery_schedule:
  assumes "MaxTries cfg = 3"
  shows "schedule (sample_delivery cfg) =
     backoff_pause failing_env cfg 0 @ [ClientDo (sample_request failing_env)]
     @ backoff_pause failing_env cfg 1 @ [ClientDo (sample_request failing_env)]
     @ backoff_pause failing_env cfg 2 @ [ClientDo (sample_request failing_env)]"
proof -
  let ?s = "sample_server\<lparr> cfg_Webhook := cfg \<rparr>"
  have rq: "outbound_request ?s failing_env (WithSpan ''executeWebhook'' (Root None))
              ''http://a'' ''token'' ''{}'' = sample_request failing_env"
    by (simp add: outbound_request_def sample_request_def sample_server_def)
  have f: "failures_before_success failing_env (sample_request failing_env) 3 = 3"
    by (rule failures_all) (simp add: failing_env_def)
  have enc: "json_Encode failing_env sample_event = Inr ''{}''"
    and req: "NewRequest_error failing_env ''http://a'' = None"
    by (simp_all add: failing_env_def)
  have n: "nat (MaxTries (cfg_Webhook ?s)) = 3" using assms by simp
  have "schedule (sample_delivery cfg) =
     concat (map (\<lambda>i. backoff_pause failing_env cfg i @ [ClientDo (sample_request failing_env)])
       [0..<3])"
    unfolding sample_delivery_def executeWebhook_schedule[OF enc req] rq n f by simp
  then show ?thesis by (simp add: upt_3)
qed

subsection \<open>Sample headers\<close>

lemma ToUpper_samples:
  "ToUpper ''secret'' = ''SECRET''" "ToUpper ''Secret'' = ''SECRET''"
  "ToUpper ''Bearer'' = ''BEARER''"
  by code_simp+

lemma sample_secrets:
  "GetWebhookSecret (wrong_secret_request body) = ''guess''"
  "GetWebhookSecret (no_such_id_request body) = ''token''"
  by (simp_all add: GetWebhookSecret_def wrong_secret_request_def no_such_id_request_def
      ToUpper_samples)

section \<open>The claims\<close>

subsection \<open>The registry\<close>

text \<open>
  Claim C10.  \<open>GetWebhookSecret\<close> returns the \<open>Authorization\<close> header without its first
  seven bytes exactly when the header is longer than seven bytes and its first six bytes are
  \<open>SECRET\<close> up to case, and the empty string otherwise.  The seventh byte is not looked
  at (\<open>secretXabc\<close> gives \<open>abc\<close>); the header \<open>Secret\<close> followed by one space gives the
  empty string; and on an empty result the handlers for GET, PATCH and DELETE reply
  \<open>BadRequest\<close> (missing secret) without any persistence call, the store untouched.
\<close>

theorem GetWebhookSecret_header:
  fixes r :: "'b Request" and p :: "WebhookUpdateRequest Request"
  shows
  "GetWebhookSecret r =
     (if length (Authorization r) > 7 \<and> EqualFold (take 6 (Authorization r)) ''SECRET''
      then drop 7 (Authorization r) else [])
   \<and> GetWebhookSecret (r\<lparr>Authorization := ''secretXabc''\<rparr>) = ''abc''
   \<and> GetWebhookSecret (r\<lparr>Authorization := ''Secret ''\<rparr>) = []
   \<and> (GetWebhookSecret r = [] \<longrightarrow>
        GetDocumentWebhook s st r = (s_error (BadRequest ErrMissingWebhookSecret), [], st)
        \<and> DeleteDocumentWebhook s st r = (s_error (BadRequest ErrMissingWebhookSecret), [], st))
   \<and> (GetWebhookSecret p = [] \<longrightarrow>
        PatchDocumentWebhook s st p = (s_error (BadRequest ErrMissingWebhookSecret), [], st))"
proof -
  have a: "GetWebhookSecret r =
     (if length (Authorization r) > 7 \<and> EqualFold (take 6 (Authorization r)) ''SECRET''
      then drop 7 (Authorization r) else [])"
    by (simp only: GetWebhookSecret_def Let_def ToUpper_eq_SECRET)
  have b: "GetWebhookSecret (r\<lparr>Authorization := ''secretXabc''\<rparr>) = ''abc''"
    by (simp add: GetWebhookSecret_def ToUpper_samples)
  have c: "GetWebhookSecret (r\<lparr>Authorization := ''Secret ''\<rparr>) = []"
    by (simp add: GetWebhookSecret_def)
  have d: "GetWebhookSecret r = [] \<longrightarrow>
        GetDocumentWebhook s st r = (s_error (BadRequest ErrMissingWebhookSecret), [], st)
        \<and> DeleteDocumentWebhook s st r = (s_error (BadRequest ErrMissingWebhookSecret), [], st)"
    by (simp add: GetDocumentWebhook_def DeleteDocumentWebhook_def)
  have e: "GetWebhookSecret p = [] \<longrightarrow>
        PatchDocumentWebhook s st p = (s_error (BadRequest ErrMissingWebhookSecret), [], st)"
    by (simp add: PatchDocumentWebhook_def)
  from a b c d e show ?thesis by blast
qed

text \<open>
  The theorem at a header with another scheme, and at the header with an empty secret.
\<close>

theorem GetWebhookSecret_header_witness:
  "GetDocumentWebhook sample_server []
     \<lparr> documentID = ''doc'', webhookID = ''w'', Authorization = ''Bearer abc'',
       claims_Permissions = {}, Body = (Inl '''' :: string + unit) \<rparr>
     = (s_error (BadRequest ErrMissingWebhookSecret), [], [])
   \<and> DeleteDocumentWebhook sample_server []
     \<lparr> documentID = ''doc'', webhookID = ''w'', Authorization = ''Bearer abc'',
       claims_Permissions = {}, Body = (Inl '''' :: string + unit) \<rparr>
     = (s_error (BadRequest ErrMissingWebhookSecret), [], [])
   \<and> PatchDocumentWebhook sample_server []
     \<lparr> documentID = ''doc'', webhookID = ''w'', Authorization = ''Secret '',
       claims_Permissions = {},
       Body = Inr \<lparr> update_URL = ''http://a'', update_Secret = [], update_Events = [] \<rparr> \<rparr>
     = (s_error (BadRequest ErrMissingWebhookSecret), [], [])"
proof -
  let ?r = "\<lparr> documentID = ''doc'', webhookID = ''w'', Authorization = ''Bearer abc'',
       claims_Permissions = {}, Body = (Inl '''' :: string + unit) \<rparr>"
  let ?p = "\<lparr> documentID = ''doc'', webhookID = ''w'', Authorization = ''Secret '',
       claims_Permissions = {},
       Body = Inr \<lparr> update_URL = ''http://a'', update_Secret = [], update_Events = [] \<rparr> \<rparr>"
  have r: "GetWebhookSecret ?r = []"
    by (simp add: GetWebhookSecret_def ToUpper_samples)
  have p: "GetWebhookSecret ?p = []"
    by (simp add: GetWebhookSecret_def)
  note T = GetWebhookSecret_header[of ?r sample_server "[]" ?p]
  from T r p show ?thesis by blast
qed

text \<open>
  Claim C8.  A PATCH whose body has none of \<open>url\<close>, \<open>secret\<close> and \<open>events\<close> is
  answered with \<open>BadRequest\<close>, without any persistence call and with the store untouched:
  for the missing secret when the header gives none, and for the missing fields otherwise.
\<close>

theorem PatchDocumentWebhook_all_empty:
  assumes "Body r = Inr u"
    and "update_URL u = []" and "update_Secret u = []" and "update_Events u = []"
  shows "PatchDocumentWebhook s st r =
           (s_error (BadRequest (if GetWebhookSecret r = [] then ErrMissingWebhookSecret
                                 else ErrMissingURLOrSecretOrEvents)), [], st)"
  using assms by (simp add: PatchDocumentWebhook_def)

text \<open>The theorem at an empty body sent with the right secret of a stored webhook.\<close>

theorem PatchDocumentWebhook_all_empty_witness:
  "PatchDocumentWebhook sample_server [update_hook]
     \<lparr> documentID = ''doc'', webhookID = ''w1'', Authorization = ''Secret token'',
       claims_Permissions = {},
       Body = Inr \<lparr> update_URL = [], update_Secret = [], update_Events = [] \<rparr> \<rparr>
   = (s_error (BadRequest ErrMissingURLOrSecretOrEvents), [], [update_hook])"
proof -
  let ?u = "\<lparr> update_URL = [], update_Secret = [], update_Events = [] \<rparr>"
  let ?r = "\<lparr> documentID = ''doc'', webhookID = ''w1'', Authorization = ''Secret token'',
       claims_Permissions = {}, Body = Inr ?u \<rparr>"
  have s: "GetWebhookSecret ?r = ''token''"
    by (simp add: GetWebhookSecret_def ToUpper_samples)
  have "PatchDocumentWebhook sample_server [update_hook] ?r =
           (s_error (BadRequest (if GetWebhookSecret ?r = [] then ErrMissingWebhookSecret
                                 else ErrMissingURLOrSecretOrEvents)), [], [update_hook])"
    by (rule PatchDocumentWebhook_all_empty[of ?r ?u]) simp_all
  then show ?thesis by (simp only: s) simp
qed

text \<open>
  Claim C6.  Whenever the request presents a secret and persistence reports no rows, the
  handlers for GET and DELETE reply \<open>NotFound\<close> with the one error \<open>ErrWebhookNotFound\<close>,
  and so does the handler for PATCH when the body names a field; its reply to a body it
  rejects depends on the body alone.  The reply holds nothing of the document, the id or
  the secret presented, so a wrong secret for an existing webhook and an id that does not
  exist, both of which persistence reports as no rows, get the same reply.
\<close>

theorem not_found_hides_the_cause:
  fixes r :: "'b Request" and p :: "WebhookUpdateRequest Request"
  shows
  "(GetWebhookSecret r \<noteq> []
      \<and> fst (db_GetWebhook (db s) st (documentID r) (webhookID r) (GetWebhookSecret r))
          = Inl ErrNoRows
    \<longrightarrow> fst (GetDocumentWebhook s st r) = s_error (NotFound ErrWebhookNotFound))
   \<and> (GetWebhookSecret r \<noteq> []
      \<and> fst (db_DeleteWebhook (db s) st (documentID r) (webhookID r) (GetWebhookSecret r))
          = Some ErrNoRows
    \<longrightarrow> fst (DeleteDocumentWebhook s st r) = s_error (NotFound ErrWebhookNotFound))
   \<and> (GetWebhookSecret p \<noteq> []
      \<and> (\<forall>u. Body p = Inr u \<longrightarrow>
            fst (db_UpdateWebhook (db s) st (documentID p) (webhookID p) (GetWebhookSecret p)
                   (update_URL u) (update_Secret u) (update_Events u))
              = Inl ErrNoRows)
    \<longrightarrow> fst (PatchDocumentWebhook s st p) =
          (case Body p of
             Inl err \<Rightarrow> s_error (BadRequest (ErrOther err))
           | Inr u \<Rightarrow>
               if update_URL u = [] \<and> update_Secret u = [] \<and> update_Events u = []
               then s_error (BadRequest ErrMissingURLOrSecretOrEvents)
               else s_error (NotFound ErrWebhookNotFound)))"
proof -
  have g: "fst (GetDocumentWebhook s st r) = s_error (NotFound ErrWebhookNotFound)"
    if "GetWebhookSecret r \<noteq> []
      \<and> fst (db_GetWebhook (db s) st (documentID r) (webhookID r) (GetWebhookSecret r))
          = Inl ErrNoRows"
    using that
    by (cases "db_GetWebhook (db s) st (documentID r) (webhookID r) (GetWebhookSecret r)")
       (simp add: GetDocumentWebhook_def)
  have d: "fst (DeleteDocumentWebhook s st r) = s_error (NotFound ErrWebhookNotFound)"
    if "GetWebhookSecret r \<noteq> []
      \<and> fst (db_DeleteWebhook (db s) st (documentID r) (webhookID r) (GetWebhookSecret r))
          = Some ErrNoRows"
    using that
    by (cases "db_DeleteWebhook (db s) st (documentID r) (webhookID r) (GetWebhookSecret r)")
       (simp add: DeleteDocumentWebhook_def)
  have u: "fst (PatchDocumentWebhook s st p) =
          (case Body p of
             Inl err \<Rightarrow> s_error (BadRequest (ErrOther err))
           | Inr u \<Rightarrow>
               if update_URL u = [] \<and> update_Secret u = [] \<and> update_Events u = []
               then s_error (BadRequest ErrMissingURLOrSecretOrEvents)
               else s_error (NotFound ErrWebhookNotFound))"
    if h: "GetWebhookSecret p \<noteq> []
      \<and> (\<forall>u. Body p = Inr u \<longrightarrow>
            fst (db_UpdateWebhook (db s) st (documentID p) (webhookID p) (GetWebhookSecret p)
                   (update_URL u) (update_Secret u) (update_Events u))
              = Inl ErrNoRows)"
  proof (cases "Body p")
    case (Inl err)
    with h show ?thesis by (simp add: PatchDocumentWebhook_def)
  next
    case (Inr u)
    with h have n: "fst (db_UpdateWebhook (db s) st (documentID p) (webhookID p)
        (GetWebhookSecret p) (update_URL u) (update_Secret u) (update_Events u)) = Inl ErrNoRows"
      by blast
    from h Inr n show ?thesis
      by (cases "db_UpdateWebhook (db s) st (documentID p) (webhookID p) (GetWebhookSecret p)
                (update_URL u) (update_Secret u) (update_Events u)")
         (auto simp add: PatchDocumentWebhook_def)
  qed
  from g d u show ?thesis by blast
qed

text \<open>
  The theorem over the store with the first sample webhook: its id with a wrong secret,
  and an id that does not exist, for each of the three handlers.
\<close>

theorem not_found_hides_the_cause_witness:
  "fst (GetDocumentWebhook sample_server [update_hook] (wrong_secret_request ()))
     = s_error (NotFound ErrWebhookNotFound)
   \<and> fst (GetDocumentWebhook sample_server [update_hook] (no_such_id_request ()))
     = s_error (NotFound ErrWebhookNotFound)
   \<and> fst (DeleteDocumentWebhook sample_server [update_hook] (wrong_secret_request ()))
     = fst (DeleteDocumentWebhook sample_server [update_hook] (no_such_id_request ()))
   \<and> fst (PatchDocumentWebhook sample_server [update_hook] (wrong_secret_request sample_update))
     = fst (PatchDocumentWebhook sample_server [update_hook] (no_such_id_request sample_update))
   \<and> fst (PatchDocumentWebhook sample_server [update_hook] (wrong_secret_request sample_update))
     = s_error (NotFound ErrWebhookNotFound)"
proof -
  have wg: "fst (db_GetWebhook (db sample_server) [update_hook]
              (documentID (wrong_secret_request ())) (webhookID (wrong_secret_request ()))
              ''guess'') = Inl ErrNoRows"
    and wd: "fst (db_DeleteWebhook (db sample_server) [update_hook]
              (documentID (wrong_secret_request ())) (webhookID (wrong_secret_request ()))
              ''guess'') = Some ErrNoRows"
    and wu: "\<forall>u. fst (db_UpdateWebhook (db sample_server) [update_hook]
              (documentID (wrong_secret_request sample_update))
              (webhookID (wrong_secret_request sample_update))
              ''guess'' (update_URL u) (update_Secret u) (update_Events u)) = Inl ErrNoRows"
    by (simp_all add: wrong_secret_request_def sample_server_def store_db_def matches_def
          update_hook_def)
  have ng: "fst (db_GetWebhook (db sample_server) [update_hook]
              (documentID (no_such_id_request ())) (webhookID (no_such_id_request ()))
              ''token'') = Inl ErrNoRows"
    and nd: "fst (db_DeleteWebhook (db sample_server) [update_hook]
              (documentID (no_such_id_request ())) (webhookID (no_such_id_request ()))
              ''token'') = Some ErrNoRows"
    and nu: "\<forall>u. fst (db_UpdateWebhook (db sample_server) [update_hook]
              (documentID (no_such_id_request sample_update))
              (webhookID (no_such_id_request sample_update))
              ''token'' (update_URL u) (update_Secret u) (update_Events u)) = Inl ErrNoRows"
    by (simp_all add: no_such_id_request_def sample_server_def store_db_def matches_def
          update_hook_def)
  have bw: "Body (wrong_secret_request sample_update) = Inr sample_update"
    and bn: "Body (no_such_id_request sample_update) = Inr sample_update"
    by (simp_all add: wrong_secret_request_def no_such_id_request_def)
  have ne: "\<not> (update_URL sample_update = [] \<and> update_Secret sample_update = []
              \<and> update_Events sample_update = [])"
    by (simp add: sample_update_def)
  note W = not_found_hides_the_cause[of "wrong_secret_request ()" sample_server "[update_hook]"
      "wrong_secret_request sample_update", unfolded sample_secrets]
  note N = not_found_hides_the_cause[of "no_such_id_request ()" sample_server "[update_hook]"
      "no_such_id_request sample_update", unfolded sample_secrets]
  from W wg wd wu have
    1: "fst (GetDocumentWebhook sample_server [update_hook] (wrong_secret_request ()))
          = s_error (NotFound ErrWebhookNotFound)"
    and 2: "fst (DeleteDocumentWebhook sample_server [update_hook] (wrong_secret_request ()))
          = s_error (NotFound ErrWebhookNotFound)"
    and 3: "fst (PatchDocumentWebhook sample_server [update_hook]
              (wrong_secret_request sample_update))
          = (case Body (wrong_secret_request sample_update) of
               Inl err \<Rightarrow> s_error (BadRequest (ErrOther err))
             | Inr u \<Rightarrow>
                 if update_URL u = [] \<and> update_Secret u = [] \<and> update_Events u = []
                 then s_error (BadRequest ErrMissingURLOrSecretOrEvents)
                 else s_error (NotFound ErrWebhookNotFound))"
    by auto
  from N ng nd nu have
    4: "fst (GetDocumentWebhook sample_server [update_hook] (no_such_id_request ()))
          = s_error (NotFound ErrWebhookNotFound)"
    and 5: "fst (DeleteDocumentWebhook sample_server [update_hook] (no_such_id_request ()))
          = s_error (NotFound ErrWebhookNotFound)"
    and 6: "fst (PatchDocumentWebhook sample_server [update_hook]
              (no_such_id_request sample_update))
          = (case Body (no_such_id_request sample_update) of
               Inl err \<Rightarrow> s_error (BadRequest (ErrOther err))
             | Inr u \<Rightarrow>
                 if update_URL u = [] \<and> update_Secret u = [] \<and> update_Events u = []
                 then s_error (BadRequest ErrMissingURLOrSecretOrEvents)
                 else s_error (NotFound ErrWebhookNotFound))"
    by auto
  from 1 2 3 4 5 6 show ?thesis
    by (simp add: bw bn ne)
qed

text \<open>
  Claim C7, as stated: creation fails with \<open>Forbidden\<close> whenever the claims lack the
  webhook permission, and returns the created webhook whenever no field is empty and the
  permission is there.  It fails on both counts: a request with an empty URL and without
  the permission is answered \<open>BadRequest\<close>, and a complete request with the permission
  is answered with the error of \<open>CreateWebhook\<close> when persistence is out of order.
\<close>

theorem create_webhook_precedence:
  "Misses {} PermissionWebhook
   \<and> PostDocumentWebhook sample_server []
       \<lparr> documentID = ''doc'', webhookID = [], Authorization = [], claims_Permissions = {},
         Body = Inr \<lparr> create_URL = [], create_Secret = ''token'',
                      create_Events = [''update''] \<rparr> \<rparr>
     = (s_error (BadRequest ErrMissingWebhookURL), [], [])
   \<and> \<not> Misses {PermissionWebhook} PermissionWebhook
   \<and> PostDocumentWebhook broken_server ()
       \<lparr> documentID = ''doc'', webhookID = [], Authorization = [],
         claims_Permissions = {PermissionWebhook},
         Body = Inr \<lparr> create_URL = ''http://a'', create_Secret = ''token'',
                      create_Events = [''update''] \<rparr> \<rparr>
     = (s_error (Unwrapped (ErrOther ''connection refused'')),
        [CreateWebhook ''doc'' ''http://a'' ''token'' [''update'']], ())"
  by (simp add: PostDocumentWebhook_def Misses_def Has_def broken_server_def broken_db_def)

text \<open>
  Claim C7, amended.  For a body that decodes: when any of \<open>url\<close>, \<open>secret\<close> and
  \<open>events\<close> is empty the reply is \<open>BadRequest\<close>, for the first of them that is empty,
  and persistence is not called; when none is empty and the claims lack the webhook
  permission the reply is \<open>Forbidden\<close>, and persistence is not called; otherwise
  \<open>CreateWebhook\<close> is called once, and the reply is the webhook it created, with the id
  it generated, or the error it returned.
\<close>

theorem create_webhook_outcomes:
  assumes "Body r = Inr c"
  shows
  "(create_URL c = [] \<or> create_Secret c = [] \<or> create_Events c = [] \<longrightarrow>
      PostDocumentWebhook s st r =
        (s_error (BadRequest (if create_URL c = [] then ErrMissingWebhookURL
                              else if create_Secret c = [] then ErrMissingWebhookSecret
                              else ErrMissingWebhookEvents)), [], st))
   \<and> (create_URL c \<noteq> [] \<and> create_Secret c \<noteq> [] \<and> create_Events c \<noteq> []
        \<and> Misses (claims_Permissions r) PermissionWebhook \<longrightarrow>
      PostDocumentWebhook s st r =
        (s_error (Forbidden (ErrPermissionDenied ''webhook'')), [], st))
   \<and> (create_URL c \<noteq> [] \<and> create_Secret c \<noteq> [] \<and> create_Events c \<noteq> []
        \<and> \<not> Misses (claims_Permissions r) PermissionWebhook \<longrightarrow>
      (\<forall>webhook st'.
          db_CreateWebhook (db s) st (documentID r) (create_URL c) (create_Secret c)
            (create_Events c) = (Inr webhook, st') \<longrightarrow>
          PostDocumentWebhook s st r =
            (s_ok (Some (response_of webhook)),
             [CreateWebhook (documentID r) (create_URL c) (create_Secret c) (create_Events c)],
             st')
          \<and> resp_ID (response_of webhook) = wh_ID webhook)
      \<and> (\<forall>err st'.
          db_CreateWebhook (db s) st (documentID r) (create_URL c) (create_Secret c)
            (create_Events c) = (Inl err, st') \<longrightarrow>
          PostDocumentWebhook s st r =
            (s_error (Unwrapped err),
             [CreateWebhook (documentID r) (create_URL c) (create_Secret c) (create_Events c)],
             st')))"
  using assms by (auto simp add: PostDocumentWebhook_def response_of_def)

text \<open>
  The theorem at a complete request to the empty sample store, with the permission and
  without it.
\<close>

theorem create_webhook_outcomes_witness:
  "PostDocumentWebhook sample_server []
       \<lparr> documentID = ''doc'', webhookID = [], Authorization = [],
         claims_Permissions = {PermissionWebhook},
         Body = Inr \<lparr> create_URL = ''http://a'', create_Secret = ''token'',
                      create_Events = [''update'', ''delete''] \<rparr> \<rparr>
     = (s_ok (Some \<lparr> resp_ID = ''w'', resp_DocumentKey = ''doc'', resp_URL = ''http://a'',
                     resp_Secret = ''token'', resp_Events = [''update'', ''delete''] \<rparr>),
        [CreateWebhook ''doc'' ''http://a'' ''token'' [''update'', ''delete'']],
        [\<lparr> wh_ID = ''w'', wh_DocumentID = ''doc'', wh_URL = ''http://a'',
           wh_Secret = ''token'', wh_Events = ''update,delete'' \<rparr>])
   \<and> PostDocumentWebhook sample_server []
       \<lparr> documentID = ''doc'', webhookID = [], Authorization = [],
         claims_Permissions = {PermissionWrite},
         Body = Inr \<lparr> create_URL = ''http://a'', create_Secret = ''token'',
                      create_Events = [''update'', ''delete''] \<rparr> \<rparr>
     = (s_error (Forbidden (ErrPermissionDenied ''webhook'')), [], [])"
proof -
  let ?c = "\<lparr> create_URL = ''http://a'', create_Secret = ''token'',
                      create_Events = [''update'', ''delete''] \<rparr>"
  let ?r = "\<lparr> documentID = ''doc'', webhookID = [], Authorization = [],
         claims_Permissions = {PermissionWebhook}, Body = Inr ?c \<rparr>"
  let ?q = "\<lparr> documentID = ''doc'', webhookID = [], Authorization = [],
         claims_Permissions = {PermissionWrite}, Body = Inr ?c \<rparr>"
  let ?row = "\<lparr> wh_ID = ''w'', wh_DocumentID = ''doc'', wh_URL = ''http://a'',
           wh_Secret = ''token'', wh_Events = ''update,delete'' \<rparr>"
  have mk: "db_CreateWebhook (db sample_server) [] (documentID ?r) (create_URL ?c)
              (create_Secret ?c) (create_Events ?c) = (Inr ?row, [?row])"
    by (simp add: sample_server_def store_db_def fresh_id_def Let_def)
  have ok: "\<not> Misses (claims_Permissions ?r) PermissionWebhook"
    and no: "Misses (claims_Permissions ?q) PermissionWebhook"
    by (simp_all add: Misses_def Has_def)
  note R = create_webhook_outcomes[of ?r ?c sample_server "[]"]
  note Q = create_webhook_outcomes[of ?q ?c sample_server "[]"]
  from R ok mk have 1: "PostDocumentWebhook sample_server [] ?r =
      (s_ok (Some (response_of ?row)),
       [CreateWebhook (documentID ?r) (create_URL ?c) (create_Secret ?c) (create_Events ?c)],
       [?row])"
    by simp
  from Q no have 2: "PostDocumentWebhook sample_server [] ?q =
      (s_error (Forbidden (ErrPermissionDenied ''webhook'')), [], [])"
    by simp
  from 1 2 show ?thesis by (simp add: response_of_def)
qed

subsection \<open>Delivery to one subscriber\<close>

text \<open>
  Claim C1, as stated: before attempt \<open>i\<close> the delivery waits
  \<open>min(MaxBackoff, BackoffFactor * BaseBackoff * i)\<close>, and a delay of zero or under the
  negligible threshold is skipped.  It fails at three configurations, each with three
  tries and a subscriber that fails every attempt.  With the cap at zero the delay is zero
  and would be skipped, but the code tests the product before it applies the cap, and
  sleeps for zero.  With a factor of 0.7 and a base of 10 ns the delays are a little under
  7 and 14 ns, 6 and 13 in whole nanoseconds, but the \<open>float64\<close> product rounds up and the
  code sleeps 7 and 14.  With a base of \<open>2 ^ 62\<close> ns and a factor of 4 the delay is the
  cap of 300 ms, but the product is outside the range of \<open>int64\<close>, its conversion on
  amd64 is negative, and the code does not sleep.
\<close>

theorem backoff_not_as_specified:
  "schedule (sample_delivery zero_cap_cfg)
     = [ClientDo (sample_request failing_env), Sleep 0,
        ClientDo (sample_request failing_env), Sleep 0,
        ClientDo (sample_request failing_env)]
   \<and> spec_schedule zero_cap_cfg (sample_request failing_env) 3
     = [ClientDo (sample_request failing_env), ClientDo (sample_request failing_env),
        ClientDo (sample_request failing_env)]
   \<and> schedule (sample_delivery rounding_cfg)
     = [ClientDo (sample_request failing_env), Sleep 7,
        ClientDo (sample_request failing_env), Sleep 14,
        ClientDo (sample_request failing_env)]
   \<and> spec_schedule rounding_cfg (sample_request failing_env) 3
     = [ClientDo (sample_request failing_env), Sleep 6,
        ClientDo (sample_request failing_env), Sleep 13,
        ClientDo (sample_request failing_env)]
   \<and> schedule (sample_delivery overflow_cfg)
     = [ClientDo (sample_request failing_env), ClientDo (sample_request failing_env),
        ClientDo (sample_request failing_env)]
   \<and> spec_schedule overflow_cfg (sample_request failing_env) 3
     = [ClientDo (sample_request failing_env), Sleep 300000000,
        ClientDo (sample_request failing_env), Sleep 300000000,
        ClientDo (sample_request failing_env)]"
proof -
  have z: "backoff_of failing_env zero_cap_cfg 0 = 0"
    "backoff_of failing_env zero_cap_cfg 1 = 200000000"
    "backoff_of failing_env zero_cap_cfg 2 = 400000000"
    using zero_cap_backoff[of 0] zero_cap_backoff[of 1] zero_cap_backoff[of 2] by simp_all
  have m: "MaxTries zero_cap_cfg = 3" "MaxTries rounding_cfg = 3" "MaxTries overflow_cfg = 3"
    "MaxBackoff zero_cap_cfg = 0" "MaxBackoff rounding_cfg = 300000000"
    "MaxBackoff overflow_cfg = 300000000"
    by (simp_all add: zero_cap_cfg_def rounding_cfg_def overflow_cfg_def sample_cfg_def)
  have 1: "schedule (sample_delivery zero_cap_cfg)
     = [ClientDo (sample_request failing_env), Sleep 0,
        ClientDo (sample_request failing_env), Sleep 0,
        ClientDo (sample_request failing_env)]"
    by (simp add: sample_delivery_schedule[OF m(1)] backoff_pause_def z
        z(2)[unfolded One_nat_def] m)
  have 3: "schedule (sample_delivery rounding_cfg)
     = [ClientDo (sample_request failing_env), Sleep 7,
        ClientDo (sample_request failing_env), Sleep 14,
        ClientDo (sample_request failing_env)]"
    by (simp add: sample_delivery_schedule[OF m(2)] backoff_pause_def rounding_backoff
        rounding_backoff(2)[unfolded One_nat_def] m)
  have 5: "schedule (sample_delivery overflow_cfg)
     = [ClientDo (sample_request failing_env), ClientDo (sample_request failing_env),
        ClientDo (sample_request failing_env)]"
    by (simp add: sample_delivery_schedule[OF m(3)] backoff_pause_def overflow_backoff
        overflow_backoff(2)[unfolded One_nat_def] m)
  have 2: "spec_schedule zero_cap_cfg (sample_request failing_env) 3
     = [ClientDo (sample_request failing_env), ClientDo (sample_request failing_env),
        ClientDo (sample_request failing_env)]"
    and 4: "spec_schedule rounding_cfg (sample_request failing_env) 3
     = [ClientDo (sample_request failing_env), Sleep 6,
        ClientDo (sample_request failing_env), Sleep 13,
        ClientDo (sample_request failing_env)]"
    and 6: "spec_schedule overflow_cfg (sample_request failing_env) 3
     = [ClientDo (sample_request failing_env), Sleep 300000000,
        ClientDo (sample_request failing_env), Sleep 300000000,
        ClientDo (sample_request failing_env)]"
    using spec_pauses spec_pauses[unfolded One_nat_def]
    by (simp_all add: spec_schedule_def upt_3)
  from 1 2 3 4 5 6 show ?thesis by blast
qed

text \<open>
  Claim C1, amended.  In a delivery whose request could be built, what is slept and sent
  is, for each attempt \<open>i\<close> made (from 0), the pause and then the request, where the pause
  is taken from the backoff that the code computes,
  \<open>time.Duration(BackoffFactor * float64(Backoff) * float64(i))\<close> in \<open>float64\<close>
  arithmetic and whole nanoseconds: no sleep when that backoff is a nanosecond or less,
  and otherwise one sleep of it or of \<open>MaxBackoff\<close>, whichever is less.  Where the factor
  is a whole number and it, the base and the products are under \<open>2 ^ 53\<close> in absolute
  value, the computed backoff is \<open>BackoffFactor * Backoff * i\<close>.  In particular, with
  three tries, a base of 100 ms, a factor of 2 and a cap of 300 ms, a subscriber that
  fails every attempt is sent to exactly three times, at once, after 200 ms and after
  300 ms.
\<close>

theorem backoff_before_attempts:
  assumes "json_Encode env request = Inr buff" and "NewRequest_error env url = None"
  shows
  "(let cfg = cfg_Webhook s;
        rq = outbound_request s env (WithSpan ''executeWebhook'' ctx) url secret buff;
        n = nat (MaxTries cfg);
        f = failures_before_success env rq n
    in schedule (executeWebhook s env ctx url secret request)
         = concat (map (\<lambda>i. backoff_pause env cfg i @ [ClientDo rq]) [0..<min (Suc f) n])
       \<and> (\<forall>k i. BackoffFactor cfg = Finite (of_int k) \<and> \<bar>k\<bar> < 2 ^ 53
                  \<and> \<bar>Backoff cfg\<bar> < 2 ^ 53 \<and> \<bar>k * Backoff cfg\<bar> < 2 ^ 53
                  \<and> int i < 2 ^ 53 \<and> \<bar>k * Backoff cfg * int i\<bar> < 2 ^ 53
              \<longrightarrow> backoff_of env cfg i = k * Backoff cfg * int i)
       \<and> (MaxTries cfg = 3 \<and> Backoff cfg = 100000000 \<and> BackoffFactor cfg = Finite 2
            \<and> MaxBackoff cfg = 300000000 \<and> (\<forall>j<3. \<not> success (client_Do env rq j))
          \<longrightarrow> schedule (executeWebhook s env ctx url secret request)
                = [ClientDo rq, Sleep 200000000, ClientDo rq, Sleep 300000000, ClientDo rq]))"
proof -
  let ?cfg = "cfg_Webhook s"
  let ?rq = "outbound_request s env (WithSpan ''executeWebhook'' ctx) url secret buff"
  let ?n = "nat (MaxTries ?cfg)"
  let ?f = "failures_before_success env ?rq ?n"
  let ?t = "executeWebhook s env ctx url secret request"
  have general: "schedule ?t
         = concat (map (\<lambda>i. backoff_pause env ?cfg i @ [ClientDo ?rq]) [0..<min (Suc ?f) ?n])"
    by (rule executeWebhook_schedule[OF assms])
  have exact: "\<forall>k i. BackoffFactor ?cfg = Finite (of_int k) \<and> \<bar>k\<bar> < 2 ^ 53
                  \<and> \<bar>Backoff ?cfg\<bar> < 2 ^ 53 \<and> \<bar>k * Backoff ?cfg\<bar> < 2 ^ 53
                  \<and> int i < 2 ^ 53 \<and> \<bar>k * Backoff ?cfg * int i\<bar> < 2 ^ 53
              \<longrightarrow> backoff_of env ?cfg i = k * Backoff ?cfg * int i"
    using backoff_of_exact[of ?cfg _ _ env] by blast
  have particular: "schedule ?t
      = [ClientDo ?rq, Sleep 200000000, ClientDo ?rq, Sleep 300000000, ClientDo ?rq]"
    if c: "MaxTries ?cfg = 3 \<and> Backoff ?cfg = 100000000 \<and> BackoffFactor ?cfg = Finite 2
            \<and> MaxBackoff ?cfg = 300000000 \<and> (\<forall>j<3. \<not> success (client_Do env ?rq j))"
  proof -
    from c have n: "?n = 3" by simp
    from c have "failures_before_success env ?rq 3 = 3" by (intro failures_all) simp
    then have f: "min (Suc ?f) ?n = 3" by (simp add: n)
    have b: "backoff_of env ?cfg i = 2 * Backoff ?cfg * int i" if "i < 3" for i
      using c that by (intro backoff_of_exact) simp_all
    have p: "backoff_pause env ?cfg 0 = []"
      "backoff_pause env ?cfg (Suc 0) = [Sleep 200000000]"
      "backoff_pause env ?cfg 2 = [Sleep 300000000]"
      using c b[of 0] b[of 1] b[of 2] by (simp_all add: backoff_pause_def)
    show ?thesis
      by (simp only: general f) (simp add: upt_3 p)
  qed
  show ?thesis
    unfolding Let_def using general exact particular by blast
qed

text \<open>
  The theorem at the sample server and a subscriber that times out and then answers 500.
\<close>

theorem backoff_before_attempts_witness:
  "schedule (executeWebhook sample_server failing_env (Root None) ''http://a'' ''token''
       sample_event)
   = [ClientDo (sample_request failing_env), Sleep 200000000,
      ClientDo (sample_request failing_env), Sleep 300000000,
      ClientDo (sample_request failing_env)]
   \<and> backoff_of failing_env sample_cfg 2 = 400000000"
proof -
  have enc: "json_Encode failing_env sample_event = Inr ''{}''"
    and req: "NewRequest_error failing_env ''http://a'' = None"
    by (simp_all add: failing_env_def)
  have cfg: "MaxTries (cfg_Webhook sample_server) = 3"
    "Backoff (cfg_Webhook sample_server) = 100000000"
    "BackoffFactor (cfg_Webhook sample_server) = Finite 2"
    "MaxBackoff (cfg_Webhook sample_server) = 300000000"
    "cfg_Webhook sample_server = sample_cfg"
    by (simp_all add: sample_server_def sample_cfg_def)
  have fail: "\<forall>j<3. \<not> success (client_Do failing_env (sample_request failing_env) j)"
    by (simp add: failing_env_def)
  note T = backoff_before_attempts[OF enc req, of sample_server "Root None" "''token''",
      unfolded Let_def, folded sample_request_def]
  from T cfg fail have 1: "schedule (executeWebhook sample_server failing_env (Root None)
       ''http://a'' ''token'' sample_event)
   = [ClientDo (sample_request failing_env), Sleep 200000000,
      ClientDo (sample_request failing_env), Sleep 300000000,
      ClientDo (sample_request failing_env)]"
    by blast
  from T have "BackoffFactor (cfg_Webhook sample_server) = Finite (of_int 2)
        \<and> \<bar>2\<bar> < (2::int) ^ 53
        \<and> \<bar>Backoff (cfg_Webhook sample_server)\<bar> < 2 ^ 53
        \<and> \<bar>2 * Backoff (cfg_Webhook sample_server)\<bar> < 2 ^ 53
        \<and> int 2 < 2 ^ 53 \<and> \<bar>2 * Backoff (cfg_Webhook sample_server) * int 2\<bar> < 2 ^ 53
      \<longrightarrow> backoff_of failing_env (cfg_Webhook sample_server) 2
            = 2 * Backoff (cfg_Webhook sample_server) * int 2"
    by blast
  then have 2: "backoff_of failing_env sample_cfg 2 = 400000000"
    by (simp add: cfg sample_cfg_def)
  from 1 2 show ?thesis by blast
qed

text \<open>
  Claim C2.  A delivery never sends more than \<open>MaxTries\<close> times.  When its request
  could be built, its trace is, one after the other, the iterations whose attempt fails
  (a transport error or a status outside 200 to 299; each logs at debug level and goes
  on), then either the first attempt that succeeds, after which nothing more is sent,
  or, when all \<open>MaxTries\<close> attempts have failed, the terminal failure, which is a span
  status, a recorded error and one error log line.  The trace is all that
  \<open>executeWebhook\<close> yields: it returns no value, and no caller receives the failure.
\<close>

theorem retry_until_first_success:
  "length (sends (executeWebhook s env ctx url secret request)) \<le> nat (MaxTries (cfg_Webhook s))
   \<and> (json_Encode env request = Inr buff \<and> NewRequest_error env url = None \<longrightarrow>
       (let cfg = cfg_Webhook s;
            rq = outbound_request s env (WithSpan ''executeWebhook'' ctx) url secret buff;
            n = nat (MaxTries cfg);
            f = failures_before_success env rq n;
            trace = executeWebhook s env ctx url secret request
        in trace = Log LevelDebug ''emitting webhook'' #
                   concat (map (failed_attempt cfg env rq) [0..<f])
                   @ (if f < n then successful_attempt cfg env rq f else max_tries_reached)
                   @ [SpanEnd]
           \<and> sends trace = replicate (min (Suc f) n) rq
           \<and> (\<forall>j<f. \<not> success (client_Do env rq j))
           \<and> (f < n \<longrightarrow> success (client_Do env rq f) \<and> error_logs trace = [])
           \<and> (\<not> f < n \<longrightarrow> error_logs trace = [''failed to execute webhook''])))"
proof -
  let ?cfg = "cfg_Webhook s"
  let ?rq = "outbound_request s env (WithSpan ''executeWebhook'' ctx) url secret buff"
  let ?n = "nat (MaxTries ?cfg)"
  let ?f = "failures_before_success env ?rq ?n"
  let ?t = "executeWebhook s env ctx url secret request"
  have bound: "length (sends ?t) \<le> ?n" by (rule executeWebhook_sends_le)
  have built: "?t = Log LevelDebug ''emitting webhook'' #
                   concat (map (failed_attempt ?cfg env ?rq) [0..<?f])
                   @ (if ?f < ?n then successful_attempt ?cfg env ?rq ?f else max_tries_reached)
                   @ [SpanEnd]
           \<and> sends ?t = replicate (min (Suc ?f) ?n) ?rq
           \<and> (\<forall>j<?f. \<not> success (client_Do env ?rq j))
           \<and> (?f < ?n \<longrightarrow> success (client_Do env ?rq ?f) \<and> error_logs ?t = [])
           \<and> (\<not> ?f < ?n \<longrightarrow> error_logs ?t = [''failed to execute webhook''])"
    if h: "json_Encode env request = Inr buff \<and> NewRequest_error env url = None"
  proof -
    from h have enc: "json_Encode env request = Inr buff"
      and req: "NewRequest_error env url = None" by simp_all
    note t = executeWebhook_built[OF enc req, of s ctx secret]
    have 1: "?t = Log LevelDebug ''emitting webhook'' #
                   concat (map (failed_attempt ?cfg env ?rq) [0..<?f])
                   @ (if ?f < ?n then successful_attempt ?cfg env ?rq ?f else max_tries_reached)
                   @ [SpanEnd]"
      by (simp only: t loop_from_start[of ?cfg env ?rq] append_assoc)
    have 2: "sends ?t = replicate (min (Suc ?f) ?n) ?rq"
      by (simp add: t sends_append loop_sends)
    have 3: "\<forall>j<?f. \<not> success (client_Do env ?rq j)"
      using failures_all_fail[of _ env ?rq ?n] by blast
    have 4: "?f < ?n \<longrightarrow> success (client_Do env ?rq ?f) \<and> error_logs ?t = []"
      using failures_then_success[of env ?rq ?n]
      by (simp add: t error_logs_append loop_error_logs)
    have 5: "\<not> ?f < ?n \<longrightarrow> error_logs ?t = [''failed to execute webhook'']"
      by (simp add: t error_logs_append loop_error_logs)
    from 1 2 3 4 5 show ?thesis by blast
  qed
  show ?thesis unfolding Let_def using bound built by blast
qed

text \<open>
  The theorem at a subscriber that answers 500 and then 204: two sendings, no third one,
  and no error logged.
\<close>

theorem retry_until_first_success_witness:
  "sends (executeWebhook sample_server recovering_env (Root None) ''http://a'' ''token''
       sample_event)
     = [sample_request recovering_env, sample_request recovering_env]
   \<and> error_logs (executeWebhook sample_server recovering_env (Root None) ''http://a'' ''token''
       sample_event) = []"
proof -
  let ?rq = "sample_request recovering_env"
  have enc: "json_Encode recovering_env sample_event = Inr ''{}''
             \<and> NewRequest_error recovering_env ''http://a'' = None"
    by (simp add: recovering_env_def)
  have n: "nat (MaxTries (cfg_Webhook sample_server)) = 3"
    by (simp add: sample_server_def sample_cfg_def)
  have f: "failures_before_success recovering_env ?rq 3 = 1"
    by (rule failures_first) (simp_all add: recovering_env_def)
  note T = retry_until_first_success[of sample_server recovering_env "Root None" "''http://a''"
      "''token''" sample_event "''{}''", unfolded Let_def n, folded sample_request_def]
  from T enc have
    "sends (executeWebhook sample_server recovering_env (Root None) ''http://a'' ''token''
       sample_event)
     = replicate (min (Suc (failures_before_success recovering_env ?rq 3)) 3) ?rq"
    and "failures_before_success recovering_env ?rq 3 < 3 \<longrightarrow>
      success (client_Do recovering_env ?rq (failures_before_success recovering_env ?rq 3))
      \<and> error_logs (executeWebhook sample_server recovering_env (Root None) ''http://a''
            ''token'' sample_event) = []"
    by blast+
  then show ?thesis
    by (simp add: f numeral_2_eq_2)
qed

subsection \<open>The dispatcher\<close>

text \<open>
  Claim C9.  With webhooks enabled, \<open>ExecuteWebhooks\<close> adds one to the server's
  wait-group and starts one goroutine, and the run of that goroutine ends with the one
  \<open>Done\<close> that matches it: nothing before the deliveries and no delivery touches the
  wait-group, and the deferred \<open>Done\<close> comes after them on every path, the two early
  returns (the lookup failed, or it resolved no webhook) included.  With webhooks disabled
  there is no effect at all: no \<open>Add\<close>, no goroutine, no \<open>Done\<close>.
\<close>

theorem webhookWaitGroup_balanced:
  "(Enabled (cfg_Webhook s) \<longrightarrow>
      (\<exists>d st'. dispatch s env st ctx event document = ([WgAdd 1], Some d, st')
         \<and> wg_ops (before_tasks d) = []
         \<and> wg_ops (concat (map snd (tasks d))) = []
         \<and> wg_ops (after_tasks d) = [WgDone]
         \<and> wg_ops (all_effects d) = [WgDone]
         \<and> (resolved (fst (lookup s st event document)) = [] \<longrightarrow>
              tasks d = [] \<and> after_tasks d = [WgDone, SpanEnd])))
   \<and> (\<not> Enabled (cfg_Webhook s) \<longrightarrow> dispatch s env st ctx event document = ([], None, st))"
proof -
  let ?ctx = "WithSpan ''executeWebhooks'' (WithoutCancel ctx)"
  let ?d0 = "fst (executeWebhooks s env st ?ctx event document)"
  let ?d = "?d0\<lparr> after_tasks := after_tasks ?d0 @ [SpanEnd] \<rparr>"
  note run = executeWebhooks_run[of s env st ?ctx event document]
  have b: "wg_ops (before_tasks ?d) = []"
    by (simp add: run wg_ops_simps split: sum.splits)
  have t: "wg_ops (concat (map snd (tasks ?d))) = []"
    by (simp only: run fst_conv Dispatch.simps tasks_quiet)
  have a: "wg_ops (after_tasks ?d) = [WgDone]"
    by (simp add: run wg_ops_simps)
  have all: "wg_ops (all_effects ?d) = [WgDone]"
    unfolding all_effects_def wg_ops_append b t a by simp
  have early: "resolved (fst (lookup s st event document)) = [] \<longrightarrow>
              tasks ?d = [] \<and> after_tasks ?d = [WgDone, SpanEnd]"
    by (simp add: run)
  have "Enabled (cfg_Webhook s) \<longrightarrow>
      (\<exists>d st'. dispatch s env st ctx event document = ([WgAdd 1], Some d, st')
         \<and> wg_ops (before_tasks d) = []
         \<and> wg_ops (concat (map snd (tasks d))) = []
         \<and> wg_ops (after_tasks d) = [WgDone]
         \<and> wg_ops (all_effects d) = [WgDone]
         \<and> (resolved (fst (lookup s st event document)) = [] \<longrightarrow>
              tasks d = [] \<and> after_tasks d = [WgDone, SpanEnd]))"
    using dispatch_enabled[of s env st ctx event document] b t a all early by blast
  then show ?thesis using dispatch_disabled[of s env st ctx event document] by blast
qed

text \<open>The theorem at a dispatch whose lookup fails.\<close>

theorem webhookWaitGroup_balanced_witness:
  "wg_ops (fst (dispatch broken_server failing_env () (Root None) ''update'' sample_document))
     = [WgAdd 1]
   \<and> wg_ops (all_effects (the (fst (snd
        (dispatch broken_server failing_env () (Root None) ''update'' sample_document)))))
     = [WgDone]
   \<and> after_tasks (the (fst (snd
        (dispatch broken_server failing_env () (Root None) ''update'' sample_document))))
     = [WgDone, SpanEnd]"
proof -
  have en: "Enabled (cfg_Webhook broken_server)"
    by (simp add: broken_server_def sample_cfg_def)
  have res: "resolved (fst (lookup broken_server () ''update'' sample_document)) = []"
    by (simp add: lookup_def broken_server_def broken_db_def)
  from webhookWaitGroup_balanced[of broken_server failing_env "()" "Root None" "''update''"
      sample_document] en res
  obtain d st' where
    "dispatch broken_server failing_env () (Root None) ''update'' sample_document
       = ([WgAdd 1], Some d, st')"
    and "wg_ops (all_effects d) = [WgDone]" and "after_tasks d = [WgDone, SpanEnd]"
    by blast
  then show ?thesis by (simp add: wg_ops_simps)
qed

text \<open>
  Claim C5.  A run of \<open>executeWebhooks\<close> starts a delivery for exactly the resolved
  webhooks that are subscribed to the event, in their order; a webhook that is not
  subscribed gets no delivery and no line of the trace: besides the deliveries the trace
  holds the lookup, the log line of a failed lookup, the one closing debug line of a run
  that resolved a webhook, and the \<open>Done\<close>.  Requests are sent by the deliveries only, so a
  run with no resolved or no subscribed webhook sends nothing.  With webhooks disabled
  \<open>ExecuteWebhooks\<close> does nothing and starts nothing, and the store stays as it is.
\<close>

theorem only_subscribers_are_attempted:
  "(let webhooks = resolved (fst (lookup s st event document));
        d = fst (executeWebhooks s env st ctx event document)
    in tasks d = map (\<lambda>w. (w, executeWebhook s env ctx (wh_URL w) (wh_Secret w)
                                 (event_request env event document w)))
                   (filter (subscribed event) webhooks)
       \<and> delivered_to d = filter (subscribed event) webhooks
       \<and> (\<forall>w \<in> set webhooks. \<not> subscribed event w \<longrightarrow> w \<notin> set (delivered_to d))
       \<and> before_tasks d =
            DbCall (WithTimeout (time_Now env) ctx (Timeout (cfg_Webhook s)))
              (lookup_call event document)
            # (case fst (lookup s st event document) of
                 Inl err \<Rightarrow> [Log LevelError ''failed to get webhooks by document id'']
               | Inr hooks \<Rightarrow> [])
       \<and> after_tasks d =
            (if webhooks = [] then [WgDone]
             else [Log LevelDebug ''finished emitting webhooks'', WgDone])
       \<and> sends (all_effects d) = concat (map (sends \<circ> snd) (tasks d))
       \<and> (filter (subscribed event) webhooks = [] \<longrightarrow> sends (all_effects d) = []))
   \<and> (\<not> Enabled (cfg_Webhook s) \<longrightarrow>
        ExecuteWebhooks s ctx event document = ([], None)
        \<and> dispatch s env st ctx event document = ([], None, st))"
proof -
  let ?ws = "resolved (fst (lookup s st event document))"
  let ?d = "fst (executeWebhooks s env st ctx event document)"
  note run = executeWebhooks_run[of s env st ctx event document]
  have t: "tasks ?d = map (\<lambda>w. (w, executeWebhook s env ctx (wh_URL w) (wh_Secret w)
                                 (event_request env event document w)))
                   (filter (subscribed event) ?ws)"
    by (simp add: run)
  have dl: "delivered_to ?d = filter (subscribed event) ?ws"
    by (simp add: delivered_to_def t comp_def)
  have skip: "\<forall>w \<in> set ?ws. \<not> subscribed event w \<longrightarrow> w \<notin> set (delivered_to ?d)"
    by (simp add: dl)
  have b: "before_tasks ?d =
            DbCall (WithTimeout (time_Now env) ctx (Timeout (cfg_Webhook s)))
              (lookup_call event document)
            # (case fst (lookup s st event document) of
                 Inl err \<Rightarrow> [Log LevelError ''failed to get webhooks by document id'']
               | Inr hooks \<Rightarrow> [])"
    by (simp add: run)
  have a: "after_tasks ?d =
            (if ?ws = [] then [WgDone]
             else [Log LevelDebug ''finished emitting webhooks'', WgDone])"
    by (simp add: run)
  have sb: "sends (before_tasks ?d) = []"
    by (simp add: b split: sum.splits)
  have sa: "sends (after_tasks ?d) = []"
    by (simp add: a)
  have st: "sends (concat (map snd (tasks ?d))) = concat (map (sends \<circ> snd) (tasks ?d))"
    by (simp only: t sends_tasks) (simp add: comp_def)
  have all: "sends (all_effects ?d) = concat (map (sends \<circ> snd) (tasks ?d))"
    by (simp add: all_effects_def sends_append sb sa st)
  have none: "filter (subscribed event) ?ws = [] \<longrightarrow> sends (all_effects ?d) = []"
    by (simp add: all t)
  have off: "\<not> Enabled (cfg_Webhook s) \<longrightarrow>
        ExecuteWebhooks s ctx event document = ([], None)
        \<and> dispatch s env st ctx event document = ([], None, st)"
    by (simp add: dispatch_disabled ExecuteWebhooks_def)
  show ?thesis
    unfolding Let_def using t dl skip b a all none off by blast
qed

text \<open>
  The theorem at a delete event with one webhook subscribed to it and one not, at a
  delete event with no subscriber, and at a server with webhooks disabled.
\<close>

theorem only_subscribers_are_attempted_witness:
  "delivered_to (fst (executeWebhooks sample_server failing_env [update_hook, delete_hook]
       (Root None) ''delete'' sample_document)) = [delete_hook]
   \<and> sends (all_effects (fst (executeWebhooks sample_server failing_env [update_hook]
       (Root None) ''delete'' sample_document))) = []
   \<and> dispatch (sample_server\<lparr> cfg_Webhook := sample_cfg\<lparr> Enabled := False \<rparr> \<rparr>) failing_env
       [update_hook] (Root None) ''update'' sample_document = ([], None, [update_hook])"
proof -
  have sub: "\<not> subscribed ''delete'' update_hook" "subscribed ''delete'' delete_hook"
    by (simp_all add: subscribed_def update_hook_def delete_hook_def Contains_def)
  have l2: "resolved (fst (lookup sample_server [update_hook, delete_hook] ''delete''
              sample_document)) = [update_hook, delete_hook]"
    by (simp add: lookup_def sample_server_def store_db_def sample_document_def
        update_hook_def delete_hook_def)
  have l1: "resolved (fst (lookup sample_server [update_hook] ''delete'' sample_document))
              = [update_hook]"
    by (simp add: lookup_def sample_server_def store_db_def sample_document_def
        update_hook_def)
  have off: "\<not> Enabled (cfg_Webhook (sample_server\<lparr> cfg_Webhook := sample_cfg\<lparr> Enabled := False \<rparr> \<rparr>))"
    by simp
  note A = only_subscribers_are_attempted[of sample_server "[update_hook, delete_hook]"
      "''delete''" sample_document failing_env "Root None", unfolded Let_def l2]
  note B = only_subscribers_are_attempted[of sample_server "[update_hook]"
      "''delete''" sample_document failing_env "Root None", unfolded Let_def l1]
  note C = only_subscribers_are_attempted[of
      "sample_server\<lparr> cfg_Webhook := sample_cfg\<lparr> Enabled := False \<rparr> \<rparr>" "[update_hook]"
      "''update''" sample_document failing_env "Root None"]
  from A have 1: "delivered_to (fst (executeWebhooks sample_server failing_env
       [update_hook, delete_hook] (Root None) ''delete'' sample_document))
       = filter (subscribed ''delete'') [update_hook, delete_hook]" by blast
  from B have 2: "filter (subscribed ''delete'') [update_hook] = [] \<longrightarrow>
      sends (all_effects (fst (executeWebhooks sample_server failing_env [update_hook]
       (Root None) ''delete'' sample_document))) = []" by blast
  from C off have 3: "dispatch (sample_server\<lparr> cfg_Webhook := sample_cfg\<lparr> Enabled := False \<rparr> \<rparr>)
       failing_env [update_hook] (Root None) ''update'' sample_document
       = ([], None, [update_hook])" by blast
  from 1 2 3 sub show ?thesis by simp
qed

text \<open>
  Claim C3, as stated: every delivery attempt is sent under a deadline of its own, a step
  timeout wrapped around the context that ignores the parent's cancellation, as the lookup
  is.  It fails: in the dispatch of an update of the sample document to a subscriber that
  answers 500 and then 204, the context of both requests sent is the context without
  cancel with the two spans, and it has no deadline.
\<close>

theorem deliveries_without_deadline:
  "map rq_ctx (sends (all_effects (the (fst (snd (dispatch sample_server recovering_env
       [update_hook] (Root (Some 50)) ''update'' sample_document))))))
   = [WithSpan ''executeWebhook'' (WithSpan ''executeWebhooks'' (WithoutCancel (Root (Some 50)))),
      WithSpan ''executeWebhook'' (WithSpan ''executeWebhooks'' (WithoutCancel (Root (Some 50))))]
   \<and> map (Deadline \<circ> rq_ctx) (sends (all_effects (the (fst (snd (dispatch sample_server
       recovering_env [update_hook] (Root (Some 50)) ''update'' sample_document))))))
   = [None, None]"
  by (simp add: sample_dispatch_sends outbound_request_def)

text \<open>
  Claim C3, amended.  In every dispatch the step timeout is applied to the lookup only.
  The context of the persistence call is \<open>WithTimeout\<close> of the context without cancel:
  its deadline is the time of the lookup plus the configured timeout, and cancelling the
  triggering request does not cancel it.  The context of every request sent to a
  subscriber is the context without cancel with the spans of \<open>executeWebhooks\<close> and
  \<open>executeWebhook\<close>: cancelling the triggering request does not cancel it either, and it
  has no deadline.  (Whether \<open>s.client\<close> bounds an attempt by a timeout of its own is not
  in these sources; such a timeout is one of the transport errors of \<open>client_Do\<close>.)
\<close>

theorem timeout_at_lookup_only:
  "Enabled (cfg_Webhook s) \<longrightarrow>
     (\<exists>d st'. dispatch s env st ctx event document = ([WgAdd 1], Some d, st')
        \<and> db_contexts (all_effects d) =
            [WithDeadline (WithSpan ''executeWebhooks'' (WithoutCancel ctx))
               (time_Now env + Timeout (cfg_Webhook s))]
        \<and> (\<forall>c \<in> set (db_contexts (all_effects d)).
              Deadline c = Some (time_Now env + Timeout (cfg_Webhook s))
              \<and> \<not> cancelled_with_root c)
        \<and> (\<forall>rq \<in> set (sends (all_effects d)).
              rq_ctx rq = WithSpan ''executeWebhook''
                            (WithSpan ''executeWebhooks'' (WithoutCancel ctx))
              \<and> Deadline (rq_ctx rq) = None
              \<and> \<not> cancelled_with_root (rq_ctx rq)))"
proof
  assume en: "Enabled (cfg_Webhook s)"
  let ?ctx = "WithSpan ''executeWebhooks'' (WithoutCancel ctx)"
  let ?d0 = "fst (executeWebhooks s env st ?ctx event document)"
  let ?d = "?d0\<lparr> after_tasks := after_tasks ?d0 @ [SpanEnd] \<rparr>"
  have dc: "db_contexts (all_effects ?d) =
      [WithDeadline ?ctx (time_Now env + Timeout (cfg_Webhook s))]"
    by (simp add: all_effects_span_end db_contexts_append db_run WithTimeout_def)
  have dl: "\<forall>c \<in> set (db_contexts (all_effects ?d)).
              Deadline c = Some (time_Now env + Timeout (cfg_Webhook s))
              \<and> \<not> cancelled_with_root c"
    by (simp add: dc)
  have rq: "\<forall>rq \<in> set (sends (all_effects ?d)).
              rq_ctx rq = WithSpan ''executeWebhook'' ?ctx
              \<and> Deadline (rq_ctx rq) = None
              \<and> \<not> cancelled_with_root (rq_ctx rq)"
  proof
    fix rq assume "rq \<in> set (sends (all_effects ?d))"
    then obtain w where "rq \<in> set (sends (executeWebhook s env ?ctx (wh_URL w) (wh_Secret w)
                                 (event_request env event document w)))"
      by (auto simp add: all_effects_span_end sends_append sends_run)
    then have "rq_ctx rq = WithSpan ''executeWebhook'' ?ctx"
      by (rule sends_executeWebhook_ctx)
    then show "rq_ctx rq = WithSpan ''executeWebhook'' ?ctx
              \<and> Deadline (rq_ctx rq) = None
              \<and> \<not> cancelled_with_root (rq_ctx rq)" by simp
  qed
  from dispatch_enabled[OF en, of env st ctx event document] dc dl rq
  show "\<exists>d st'. dispatch s env st ctx event document = ([WgAdd 1], Some d, st')
        \<and> db_contexts (all_effects d) =
            [WithDeadline (WithSpan ''executeWebhooks'' (WithoutCancel ctx))
               (time_Now env + Timeout (cfg_Webhook s))]
        \<and> (\<forall>c \<in> set (db_contexts (all_effects d)).
              Deadline c = Some (time_Now env + Timeout (cfg_Webhook s))
              \<and> \<not> cancelled_with_root c)
        \<and> (\<forall>rq \<in> set (sends (all_effects d)).
              rq_ctx rq = WithSpan ''executeWebhook''
                            (WithSpan ''executeWebhooks'' (WithoutCancel ctx))
              \<and> Deadline (rq_ctx rq) = None
              \<and> \<not> cancelled_with_root (rq_ctx rq))"
    by blast
qed

text \<open>The theorem at the dispatch of the counterexample.\<close>

theorem timeout_at_lookup_only_witness:
  "map Deadline (db_contexts (all_effects (the (fst (snd (dispatch sample_server recovering_env
       [update_hook] (Root (Some 50)) ''update'' sample_document)))))) = [Some 5000001000]
   \<and> map (cancelled_with_root \<circ> rq_ctx) (sends (all_effects (the (fst (snd (dispatch
       sample_server recovering_env [update_hook] (Root (Some 50)) ''update''
       sample_document)))))) = [False, False]"
proof -
  have en: "Enabled (cfg_Webhook sample_server)"
    by (simp add: sample_server_def sample_cfg_def)
  from timeout_at_lookup_only[of sample_server recovering_env "[update_hook]" "Root (Some 50)"
      "''update''" sample_document] en
  obtain d st' where
    d: "dispatch sample_server recovering_env [update_hook] (Root (Some 50)) ''update''
          sample_document = ([WgAdd 1], Some d, st')"
    and c: "db_contexts (all_effects d) =
            [WithDeadline (WithSpan ''executeWebhooks'' (WithoutCancel (Root (Some 50))))
               (time_Now recovering_env + Timeout (cfg_Webhook sample_server))]"
    and r: "\<forall>rq \<in> set (sends (all_effects d)). \<not> cancelled_with_root (rq_ctx rq)"
    by blast
  have "\<exists>a b. sends (all_effects d) = [a, b]"
    using sample_dispatch_sends by (simp add: d)
  then obtain a b where ab: "sends (all_effects d) = [a, b]"
    by blast
  with r have "map (cancelled_with_root \<circ> rq_ctx) (sends (all_effects d)) = [False, False]"
    by simp
  moreover have "map Deadline (db_contexts (all_effects d)) = [Some 5000001000]"
    by (simp add: c recovering_env_def sample_server_def sample_cfg_def)
  ultimately show ?thesis by (simp add: d)
qed

text \<open>
  Claim C4.  A run of \<open>executeWebhooks\<close> makes one persistence call: get-and-delete by
  document exactly when the event is \<open>delete\<close>, the plain lookup by document for any other
  event; the store it leaves and the webhooks it delivers to are those of that call.  When
  the call fails, the run logs the error and starts no delivery and sends nothing.
  Consequently, over a persistence layer whose get-and-delete removes what it returns (a
  second get-and-delete of the document, on the store the first one left, returns
  nothing), of two delete dispatches for a document, the second running on the store the
  first left, no webhook is delivered to by both, and the second delivers to none when
  the first one's lookup succeeded.
\<close>

theorem lookup_by_event:
  assumes consuming:
    "\<forall>st k ws st'. db_GetAndDeleteWebhooksByDocumentID (db s) st k = (Inr ws, st') \<longrightarrow>
        fst (db_GetAndDeleteWebhooksByDocumentID (db s) st' k) = Inr []"
  shows
  "(let outcome = (if event = ''delete''
                   then db_GetAndDeleteWebhooksByDocumentID (db s) st (doc_Key document)
                   else db_GetWebhooksByDocumentID (db s) st (doc_Key document));
        d = fst (executeWebhooks s env st ctx event document)
    in db_calls (all_effects d) =
         [if event = ''delete'' then GetAndDeleteWebhooksByDocumentID (doc_Key document)
          else GetWebhooksByDocumentID (doc_Key document)]
       \<and> snd (executeWebhooks s env st ctx event document) = snd outcome
       \<and> delivered_to d = filter (subscribed event) (resolved (fst outcome))
       \<and> (\<forall>err. fst outcome = Inl err \<longrightarrow>
             tasks d = [] \<and> sends (all_effects d) = []
             \<and> error_logs (all_effects d) = [''failed to get webhooks by document id'']))
   \<and> (let first = executeWebhooks s env st ctx ''delete'' document;
           second = executeWebhooks s env' (snd first) ctx' ''delete'' document
       in set (delivered_to (fst first)) \<inter> set (delivered_to (fst second)) = {}
          \<and> (\<forall>webhooks.
                fst (db_GetAndDeleteWebhooksByDocumentID (db s) st (doc_Key document))
                  = Inr webhooks \<longrightarrow>
                tasks (fst second) = [] \<and> sends (all_effects (fst second)) = []))"
proof -
  let ?o = "if event = ''delete''
            then db_GetAndDeleteWebhooksByDocumentID (db s) st (doc_Key document)
            else db_GetWebhooksByDocumentID (db s) st (doc_Key document)"
  let ?d = "fst (executeWebhooks s env st ctx event document)"
  have o: "lookup s st event document = ?o" by (simp add: lookup_def)
  have 1: "db_calls (all_effects ?d) =
         [if event = ''delete'' then GetAndDeleteWebhooksByDocumentID (doc_Key document)
          else GetWebhooksByDocumentID (doc_Key document)]"
    by (simp add: db_run lookup_call_def)
  have 2: "snd (executeWebhooks s env st ctx event document) = snd ?o"
    by (simp only: executeWebhooks_run snd_conv o)
  have 3: "delivered_to ?d = filter (subscribed event) (resolved (fst ?o))"
    by (simp only: delivered_run o)
  have 4: "\<forall>err. fst ?o = Inl err \<longrightarrow>
             tasks ?d = [] \<and> sends (all_effects ?d) = []
             \<and> error_logs (all_effects ?d) = [''failed to get webhooks by document id'']"
  proof (intro allI impI)
    fix err assume "fst ?o = Inl err"
    then have l: "fst (lookup s st event document) = Inl err" by (simp only: o)
    have t: "tasks ?d = []" using l by (simp add: executeWebhooks_run)
    have n: "sends (all_effects ?d) = []" using l by (simp add: sends_run)
    have e: "error_logs (all_effects ?d) = [''failed to get webhooks by document id'']"
      using l by (rule error_logs_run_failed)
    from t n e show "tasks ?d = [] \<and> sends (all_effects ?d) = []
             \<and> error_logs (all_effects ?d) = [''failed to get webhooks by document id'']"
      by blast
  qed
  let ?first = "executeWebhooks s env st ctx ''delete'' document"
  let ?second = "executeWebhooks s env' (snd ?first) ctx' ''delete'' document"
  let ?gad = "db_GetAndDeleteWebhooksByDocumentID (db s)"
  have st1: "snd ?first = snd (?gad st (doc_Key document))"
    by (simp add: executeWebhooks_run lookup_def)
  have l2: "lookup s (snd ?first) ''delete'' document = ?gad (snd ?first) (doc_Key document)"
    by (simp add: lookup_def)
  have second_empty: "tasks (fst ?second) = [] \<and> sends (all_effects (fst ?second)) = []"
    if ok: "fst (?gad st (doc_Key document)) = Inr webhooks" for webhooks
  proof -
    from ok have "?gad st (doc_Key document) = (Inr webhooks, snd ?first)"
      by (simp add: st1 prod_eq_iff)
    with consuming have "fst (?gad (snd ?first) (doc_Key document)) = Inr []" by blast
    then have "resolved (fst (lookup s (snd ?first) ''delete'' document)) = []"
      by (simp add: l2)
    then have r: "resolved (fst (lookup s (snd ?first) ''delete'' document)) = []" .
    have "tasks (fst ?second) = []" using r by (simp add: executeWebhooks_run)
    moreover have "sends (all_effects (fst ?second)) = []" using r by (simp add: sends_run)
    ultimately show ?thesis by blast
  qed
  have 5: "set (delivered_to (fst ?first)) \<inter> set (delivered_to (fst ?second)) = {}"
  proof (cases "fst (?gad st (doc_Key document))")
    case (Inl err)
    then have "resolved (fst (lookup s st ''delete'' document)) = []"
      by (simp add: lookup_def)
    then show ?thesis by (simp add: delivered_run)
  next
    case (Inr webhooks)
    from second_empty[OF Inr] show ?thesis by (simp add: delivered_to_def)
  qed
  have 6: "\<forall>webhooks. fst (?gad st (doc_Key document)) = Inr webhooks \<longrightarrow>
                tasks (fst ?second) = [] \<and> sends (all_effects (fst ?second)) = []"
    using second_empty by blast
  show ?thesis
    unfolding Let_def using 1 2 3 4 5 6 by blast
qed

text \<open>
  The theorem at the sample server, whose store satisfies the hypothesis: a delete and an
  update of the sample document, and a second delete after the first.
\<close>

theorem lookup_by_event_witness:
  "db_calls (all_effects (fst (executeWebhooks sample_server failing_env
       [update_hook, delete_hook] (Root None) ''delete'' sample_document)))
     = [GetAndDeleteWebhooksByDocumentID ''doc'']
   \<and> db_calls (all_effects (fst (executeWebhooks sample_server failing_env
       [update_hook, delete_hook] (Root None) ''update'' sample_document)))
     = [GetWebhooksByDocumentID ''doc'']
   \<and> delivered_to (fst (executeWebhooks sample_server failing_env
       [update_hook, delete_hook] (Root None) ''delete'' sample_document)) = [delete_hook]
   \<and> snd (executeWebhooks sample_server failing_env
       [update_hook, delete_hook] (Root None) ''delete'' sample_document) = []
   \<and> tasks (fst (executeWebhooks sample_server recovering_env
       (snd (executeWebhooks sample_server failing_env
          [update_hook, delete_hook] (Root None) ''delete'' sample_document))
       (Root None) ''delete'' sample_document)) = []"
proof -
  have c: "\<forall>st k ws st'.
      db_GetAndDeleteWebhooksByDocumentID (db sample_server) st k = (Inr ws, st') \<longrightarrow>
        fst (db_GetAndDeleteWebhooksByDocumentID (db sample_server) st' k) = Inr []"
    using store_db_consuming by (simp add: sample_server_def)
  have g: "db_GetAndDeleteWebhooksByDocumentID (db sample_server) [update_hook, delete_hook]
             (doc_Key sample_document) = (Inr [update_hook, delete_hook], [])"
    by (simp add: sample_server_def store_db_def sample_document_def update_hook_def
        delete_hook_def)
  have sub: "\<not> subscribed ''delete'' update_hook" "subscribed ''delete'' delete_hook"
    by (simp_all add: subscribed_def update_hook_def delete_hook_def Contains_def)
  have k: "doc_Key sample_document = ''doc''" by (simp add: sample_document_def)
  note D = lookup_by_event[OF c, of "''delete''" "[update_hook, delete_hook]" sample_document
      failing_env "Root None" recovering_env "Root None", unfolded Let_def]
  note U = lookup_by_event[OF c, of "''update''" "[update_hook, delete_hook]" sample_document
      failing_env "Root None" recovering_env "Root None", unfolded Let_def]
  from D have 1: "db_calls (all_effects (fst (executeWebhooks sample_server failing_env
       [update_hook, delete_hook] (Root None) ''delete'' sample_document)))
     = [GetAndDeleteWebhooksByDocumentID ''doc'']" by (simp add: k)
  from U have 2: "db_calls (all_effects (fst (executeWebhooks sample_server failing_env
       [update_hook, delete_hook] (Root None) ''update'' sample_document)))
     = [GetWebhooksByDocumentID ''doc'']" by (simp add: k)
  from D have 3: "delivered_to (fst (executeWebhooks sample_server failing_env
       [update_hook, delete_hook] (Root None) ''delete'' sample_document)) = [delete_hook]"
    by (simp add: g sub)
  from D have 4: "snd (executeWebhooks sample_server failing_env
       [update_hook, delete_hook] (Root None) ''delete'' sample_document) = []"
    by (simp add: g)
  have g': "fst (db_GetAndDeleteWebhooksByDocumentID (db sample_server)
             [update_hook, delete_hook] (doc_Key sample_document))
             = Inr [update_hook, delete_hook]"
    by (simp only: g fst_conv)
  from D have "\<forall>webhooks.
      fst (db_GetAndDeleteWebhooksByDocumentID (db sample_server) [update_hook, delete_hook]
             (doc_Key sample_document)) = Inr webhooks \<longrightarrow>
      tasks (fst (executeWebhooks sample_server recovering_env
       (snd (executeWebhooks sample_server failing_env
          [update_hook, delete_hook] (Root None) ''delete'' sample_document))
       (Root None) ''delete'' sample_document)) = []"
    by blast
  with g' have 5: "tasks (fst (executeWebhooks sample_server recovering_env
       (snd (executeWebhooks sample_server failing_env
          [update_hook, delete_hook] (Root None) ''delete'' sample_document))
       (Root None) ''delete'' sample_document)) = []"
    by blast
  from 1 2 3 4 5 show ?thesis by blast
qed

end
